theory Spec2Isabelle
  imports Complex_Main
begin

section \<open>Numbers\<close>

text \<open>
  A JavaScript number that the program computes with is modelled as a \<^typ>\<open>real\<close>:
  a finite double, without the rounding of each arithmetic operation and without the
  sign of zero. Four things are kept, where a result of the program depends on them.
  A number that can be any double (the \<open>duration\<close> of a configuration, the quotient
  \<open>currentTime / duration\<close>) is a \<open>jsnum\<close>, which has \<open>-0\<close>, the infinities and NaN.
  A store into a \<open>Float32Array\<close> narrows the number by \<open>Math_fround\<close>. \<open>Math.PI\<close> is
  the double \<open>Math_PI\<close>, not \<open>pi\<close>, so that \<open>cos(Math.PI / 2)\<close> and \<open>sin(Math.PI)\<close> are
  not zero; the sine and the cosine of a double are taken exactly. And the argument
  of \<open>Math.asin\<close> is rounded to a double by \<open>to_double\<close>, because the arc sine magnifies
  that rounding near \<open>1\<close> and \<open>-1\<close>.
\<close>

text \<open>In a \<open>jsnum\<close>, \<open>Num 0\<close> is \<open>+0\<close> and \<open>NegZero\<close> is \<open>-0\<close>.\<close>

datatype jsnum = Num real | NegZero | PosInfinity | NegInfinity | NaN

text \<open>The real number a finite \<open>jsnum\<close> stands for.\<close>

fun finite_value :: "jsnum \<Rightarrow> real option" where
  "finite_value (Num p) = Some p"
| "finite_value NegZero = Some 0"
| "finite_value PosInfinity = None"
| "finite_value NegInfinity = None"
| "finite_value NaN = None"

text \<open>A quotient of this magnitude or more is rounded to an infinity.\<close>

definition DBL_OVERFLOW :: real where
  "DBL_OVERFLOW = 2 ^ 1024 - 2 ^ 970"

text \<open>
  \<open>a / b\<close> for a finite dividend \<open>a\<close> whose zero is \<open>+0\<close> (an elapsed time) and any
  divisor \<open>b\<close>: a zero divisor gives an infinity of the sign of \<open>a\<close> for \<open>+0\<close> and of the
  opposite sign for \<open>-0\<close>, and \<open>0 / 0\<close> is NaN.
\<close>

fun js_divide :: "real \<Rightarrow> jsnum \<Rightarrow> jsnum" where
  "js_divide a (Num b) =
     (if b = 0 then (if 0 < a then PosInfinity else if a < 0 then NegInfinity else NaN)
      else if DBL_OVERFLOW \<le> a / b then PosInfinity
      else if a / b \<le> - DBL_OVERFLOW then NegInfinity
      else if a = 0 \<and> b < 0 then NegZero
      else Num (a / b))"
| "js_divide a NegZero =
     (if 0 < a then NegInfinity else if a < 0 then PosInfinity else NaN)"
| "js_divide a PosInfinity = (if a < 0 then NegZero else Num 0)"
| "js_divide a NegInfinity = (if a < 0 then Num 0 else NegZero)"
| "js_divide a NaN = NaN"

text \<open>\<open>Math.min(p, 1.0)\<close>: NaN is contagious, \<open>-Infinity\<close> is below every number.\<close>

fun Math_min1 :: "jsnum \<Rightarrow> jsnum" where
  "Math_min1 (Num p) = Num (min p 1)"
| "Math_min1 NegZero = NegZero"
| "Math_min1 PosInfinity = Num 1"
| "Math_min1 NegInfinity = NegInfinity"
| "Math_min1 NaN = NaN"

text \<open>\<open>Math.PI\<close>: the double nearest to \<open>pi\<close>, which is \<open>884279719003555 / 2^48\<close>. It is
  smaller than \<open>pi\<close>, by about \<open>1.2e-16\<close>.\<close>

definition Math_PI :: real where
  "Math_PI = 884279719003555 / 281474976710656"

text \<open>The angle of the point \<open>(x, y)\<close>, in \<open>(-pi, pi]\<close>, and 0 for the origin.\<close>

definition real_atan2 :: "real \<Rightarrow> real \<Rightarrow> real" where
  "real_atan2 y x =
     (if 0 < x then arctan (y / x)
      else if x < 0 \<and> 0 \<le> y then arctan (y / x) + pi
      else if x < 0 then arctan (y / x) - pi
      else if 0 < y then pi / 2
      else if y < 0 then - (pi / 2)
      else 0)"

text \<open>\<open>Math.atan2(y, x)\<close>: its results are doubles between \<open>-Math.PI\<close> and \<open>Math.PI\<close>; an
  angle between \<open>Math.PI\<close> and \<open>pi\<close> is rounded to \<open>Math.PI\<close>
  (\<open>Math.atan2(0, -1) = Math.PI\<close>).\<close>

definition Math_atan2 :: "real \<Rightarrow> real \<Rightarrow> real" where
  "Math_atan2 y x = max (- Math_PI) (min Math_PI (real_atan2 y x))"

text \<open>\<open>Math.asin(x)\<close> for a double \<open>x\<close> in \<open>[-1, 1]\<close>: its results are doubles between
  \<open>-Math.PI / 2\<close> and \<open>Math.PI / 2\<close> (\<open>Math.asin(1) = Math.PI / 2\<close>).\<close>

definition Math_asin :: "real \<Rightarrow> real" where
  "Math_asin x = max (- (Math_PI / 2)) (min (Math_PI / 2) (arcsin x))"

text \<open>The remainder operator \<open>a % b\<close> for \<open>b \<noteq> 0\<close>: the quotient is truncated towards
  zero, so the result has the sign of \<open>a\<close>.\<close>

definition js_rem :: "real \<Rightarrow> real \<Rightarrow> real" where
  "js_rem a b =
     (let q = a / b; t = (if 0 \<le> q then \<lfloor>q\<rfloor> else \<lceil>q\<rceil>) in a - b * of_int t)"

text \<open>IEEE 754 rounding of a real to an integer, ties to the even neighbour.\<close>

definition roundTiesToEven :: "real \<Rightarrow> int" where
  "roundTiesToEven r =
     (let f = \<lfloor>r\<rfloor>; d = r - of_int f
      in if d < 1 / 2 then f else if 1 / 2 < d then f + 1 else if even f then f else f + 1)"

text \<open>
  The double nearest to \<open>x\<close>: \<open>x\<close> rounded to 53 significant bits, ties to even, with
  the subnormal spacing \<open>2^-1074\<close> below \<open>2^-1022\<close>; the program's for magnitudes below
  \<open>2^1024\<close>.
\<close>

definition to_double :: "real \<Rightarrow> real" where
  "to_double x =
     (if x = 0 then 0
      else let e = max \<lfloor>log 2 \<bar>x\<bar>\<rfloor> (- 1022); q = 2 powr of_int (e - 52)
           in of_int (roundTiesToEven (x / q)) * q)"

text \<open>
  The value a \<open>Float32Array\<close> element holds after a store of \<open>x\<close> (\<open>Math.fround\<close>):
  \<open>x\<close> rounded to 24 significant bits, ties to even, with the subnormal spacing
  \<open>2^-149\<close> below \<open>2^-126\<close>. A result of magnitude \<open>2^128\<close> or more is \<open>Infinity\<close> in
  JavaScript, which \<^typ>\<open>real\<close> does not have: the function is the program's for
  magnitudes up to \<open>FLT_MAX\<close>.
\<close>

definition Math_fround :: "real \<Rightarrow> real" where
  "Math_fround x =
     (if x = 0 then 0
      else let e = max \<lfloor>log 2 \<bar>x\<bar>\<rfloor> (- 126); q = 2 powr of_int (e - 23)
           in of_int (roundTiesToEven (x / q)) * q)"

definition FLT_MAX :: real where
  "FLT_MAX = 2 ^ 128 - 2 ^ 104"

text \<open>A number a \<open>Float32Array\<close> element holds exactly.\<close>

definition is_float32 :: "real \<Rightarrow> bool" where
  "is_float32 x \<longleftrightarrow> \<bar>x\<bar> \<le> FLT_MAX \<and> Math_fround x = x"

section \<open>Babylon.js vectors\<close>

text \<open>
  \<open>Vector3\<close> and \<open>Vector2\<close> come from the library \<open>@babylonjs/core\<close>, which is not part
  of the repository; the operations the repository calls are modelled from the
  library's documented behaviour. The fields \<open>x\<close>, \<open>y\<close>, \<open>z\<close> are named \<open>vx\<close>, \<open>vy\<close>,
  \<open>vz\<close> (and \<open>ux\<close>, \<open>uy\<close> for a \<open>Vector2\<close>).

  \<open>scale\<close>, \<open>add\<close>, \<open>subtract\<close> and the static \<open>Lerp\<close> and \<open>Dot\<close> allocate their result or
  return a number. \<open>normalize\<close> is different: it normalizes the vector it is called on,
  in place, and returns that same object; a vector of length 0 or 1 is left as it is.
\<close>

record Vector3 =
  vx :: real
  vy :: real
  vz :: real

record Vector2 =
  ux :: real
  uy :: real

definition Vector3_length :: "Vector3 \<Rightarrow> real" where
  "Vector3_length v = sqrt (vx v * vx v + vy v * vy v + vz v * vz v)"

definition Vector3_scale :: "Vector3 \<Rightarrow> real \<Rightarrow> Vector3" where
  "Vector3_scale v s = \<lparr>vx = vx v * s, vy = vy v * s, vz = vz v * s\<rparr>"

definition Vector3_add :: "Vector3 \<Rightarrow> Vector3 \<Rightarrow> Vector3" where
  "Vector3_add v w = \<lparr>vx = vx v + vx w, vy = vy v + vy w, vz = vz v + vz w\<rparr>"

definition Vector3_subtract :: "Vector3 \<Rightarrow> Vector3 \<Rightarrow> Vector3" where
  "Vector3_subtract v w = \<lparr>vx = vx v - vx w, vy = vy v - vy w, vz = vz v - vz w\<rparr>"

definition Vector3_Dot :: "Vector3 \<Rightarrow> Vector3 \<Rightarrow> real" where
  "Vector3_Dot v w = vx v * vx w + vy v * vy w + vz v * vz w"

definition Vector3_Lerp :: "Vector3 \<Rightarrow> Vector3 \<Rightarrow> real \<Rightarrow> Vector3" where
  "Vector3_Lerp s e amount =
     \<lparr>vx = vx s + (vx e - vx s) * amount,
      vy = vy s + (vy e - vy s) * amount,
      vz = vz s + (vz e - vz s) * amount\<rparr>"

text \<open>The new components of a vector that \<open>normalize()\<close> is called on.\<close>

definition Vector3_normalizeFromLength :: "Vector3 \<Rightarrow> real \<Rightarrow> Vector3" where
  "Vector3_normalizeFromLength v len =
     (if len = 0 \<or> len = 1 then v else Vector3_scale v (1 / len))"

definition Vector3_normalize :: "Vector3 \<Rightarrow> Vector3" where
  "Vector3_normalize v = Vector3_normalizeFromLength v (Vector3_length v)"

text \<open>
  Vectors are objects: a configuration and a caller can hold the same one. The store
  maps a reference to the components of the object it denotes.
\<close>

type_synonym ref = nat

type_synonym store = "ref \<Rightarrow> Vector3"

text \<open>\<open>r.normalize()\<close>: the object at \<open>r\<close> is overwritten.\<close>

definition normalize_at :: "ref \<Rightarrow> store \<Rightarrow> store" where
  "normalize_at r h = h(r := Vector3_normalize (h r))"

section \<open>AstroMath: coordinate conversion and interpolation\<close>

text \<open>\<open>MathConstants.DEG_TO_RAD = Math.PI / 180\<close> and
  \<open>MathConstants.RAD_TO_DEG = 180 / Math.PI\<close>.\<close>

definition DEG_TO_RAD :: real where
  "DEG_TO_RAD = Math_PI / 180"

definition RAD_TO_DEG :: real where
  "RAD_TO_DEG = 180 / Math_PI"

text \<open>
  In \<open>geoTo3D\<close> the angles are multiples of the double \<open>Math.PI\<close>: the poles are at
  \<open>Math.PI / 2\<close> and the date line is at \<open>Math.PI\<close>, where the cosine and the sine are
  not zero, as in the program (about \<open>6.1e-17\<close> and \<open>1.2e-16\<close>).
\<close>

definition geoTo3D :: "real \<Rightarrow> real \<Rightarrow> real \<Rightarrow> Vector3" where
  "geoTo3D lat lng radius =
     (let latRad = lat * DEG_TO_RAD; lngRad = lng * DEG_TO_RAD
      in \<lparr>vx = cos lngRad * cos latRad * radius,
          vy = sin latRad * radius,
          vz = sin lngRad * cos latRad * radius\<rparr>)"

text \<open>The statement under the comment \<open>Normalize longitude to [-180, 180]\<close> of
  \<open>cartesianToSpherical\<close>.\<close>

definition foldLongitude :: "real \<Rightarrow> real" where
  "foldLongitude lng = (if 180 < lng then - 180 + (180 - lng) else lng)"

text \<open>In \<open>cartesianToSpherical\<close> the quotient \<open>vec.y / rho\<close> that \<open>Math.asin\<close> receives is a
  double.\<close>

definition cartesianToSpherical :: "Vector3 \<Rightarrow> Vector2" where
  "cartesianToSpherical vec =
     (let rho = Vector3_length vec
      in if rho = 0 then \<lparr>ux = 0, uy = 0\<rparr>
         else let longitude = Math_atan2 (vz vec) (vx vec);
                  latitude = Math_asin (to_double (vy vec / rho));
                  lat = latitude * RAD_TO_DEG;
                  lng = foldLongitude (longitude * RAD_TO_DEG)
              in \<lparr>ux = lat, uy = lng\<rparr>)"

definition raDecTo3D :: "real \<Rightarrow> real \<Rightarrow> real \<Rightarrow> Vector3" where
  "raDecTo3D ra dec radius = (let lng = ra * 15 in geoTo3D dec lng radius)"

definition cartesianToRaDec :: "Vector3 \<Rightarrow> Vector2" where
  "cartesianToRaDec vec =
     (let spherical = cartesianToSpherical vec;
          ra = js_rem (uy spherical / 15 + 24) 24;
          dec = ux spherical
      in \<lparr>ux = ra, uy = dec\<rparr>)"

text \<open>\<open>slerp\<close> reads its two arguments and never writes them: every vector it
  normalizes or scales is one it has just allocated.\<close>

definition slerp :: "Vector3 \<Rightarrow> Vector3 \<Rightarrow> real \<Rightarrow> Vector3" where
  "slerp v1 v2 t =
     (let dot = Vector3_Dot v1 v2
      in if 0.9995 < dot then Vector3_normalize (Vector3_Lerp v1 v2 t)
         else let clampedDot = max (- 1) (min 1 dot);
                  theta = arccos clampedDot * t;
                  relative = Vector3_normalize (Vector3_subtract v2 (Vector3_scale v1 clampedDot))
              in Vector3_add (Vector3_scale v1 (cos theta)) (Vector3_scale relative (sin theta)))"

definition greatCircleDistance :: "real \<Rightarrow> real \<Rightarrow> real \<Rightarrow> real \<Rightarrow> real" where
  "greatCircleDistance lat1 lng1 lat2 lng2 =
     (let p1 = geoTo3D lat1 lng1 1; p2 = geoTo3D lat2 lng2 1;
          dot = Vector3_Dot p1 p2;
          clampedDot = max (- 1) (min 1 dot)
      in arccos clampedDot * RAD_TO_DEG)"


definition projectToXY :: "Vector3 \<Rightarrow> Vector2" where
  "projectToXY vec = \<lparr>ux = vx vec, uy = vy vec\<rparr>"

definition projectToXZ :: "Vector3 \<Rightarrow> Vector2" where
  "projectToXZ vec = \<lparr>ux = vx vec, uy = vz vec\<rparr>"

definition rotateAroundY :: "Vector3 \<Rightarrow> real \<Rightarrow> Vector3" where
  "rotateAroundY vec angleDeg =
     (let angleRad = angleDeg * DEG_TO_RAD; c = cos angleRad; s = sin angleRad
      in \<lparr>vx = vx vec * c + vz vec * s, vy = vy vec, vz = - vx vec * s + vz vec * c\<rparr>)"

text \<open>
  \<open>cartesianToAzAlt\<close> calls \<open>vec.normalize()\<close> on its argument, so it takes the
  reference and returns the store it leaves behind.
\<close>

definition cartesianToAzAlt :: "ref \<Rightarrow> store \<Rightarrow> Vector2 \<times> store" where
  "cartesianToAzAlt vec h =
     (let h' = normalize_at vec h;
          normalized = h' vec;
          azimuth = js_rem (Math_atan2 (vx normalized) (vz normalized) * RAD_TO_DEG + 360) 360;
          altitude = Math_asin (to_double (vy normalized)) * RAD_TO_DEG
      in (\<lparr>ux = azimuth, uy = altitude\<rparr>, h'))"

definition azAltTo3D :: "real \<Rightarrow> real \<Rightarrow> Vector3" where
  "azAltTo3D azimuth altitude =
     (let azRad = azimuth * DEG_TO_RAD; altRad = altitude * DEG_TO_RAD;
          cosAlt = cos altRad
      in \<lparr>vx = sin azRad * cosAlt, vy = sin altRad, vz = cos azRad * cosAlt\<rparr>)"

section \<open>WWTCompat: the bridge to the legacy types\<close>

text \<open>The legacy \<open>Vector3d\<close>, fields \<open>x\<close>, \<open>y\<close>, \<open>z\<close>.\<close>

record WWTVector3d =
  wx :: real
  wy :: real
  wz :: real

text \<open>The legacy \<open>Matrix3d\<close>; the source's field names start with an underscore.\<close>

record WWTMatrix3d =
  m11 :: real
  m12 :: real
  m13 :: real
  m14 :: real
  m21 :: real
  m22 :: real
  m23 :: real
  m24 :: real
  m31 :: real
  m32 :: real
  m33 :: real
  m34 :: real
  offsetX :: real
  offsetY :: real
  offsetZ :: real
  m44 :: real

definition WWTMatrix3d_fields :: "WWTMatrix3d \<Rightarrow> real list" where
  "WWTMatrix3d_fields a =
     [m11 a, m12 a, m13 a, m14 a, m21 a, m22 a, m23 a, m24 a,
      m31 a, m32 a, m33 a, m34 a, offsetX a, offsetY a, offsetZ a, m44 a]"

text \<open>
  A Babylon.js \<open>Matrix\<close> (library type, modelled from the library's documented
  behaviour) is its element array \<open>m\<close>: 16 elements of a \<open>Float32Array\<close>, as the
  comment in \<open>babylonMatrixToWWT\<close> says. \<open>Matrix.FromValues\<close> stores its 16 arguments
  at the indices 0 to 15 in the order given, and a store into a \<open>Float32Array\<close>
  narrows the number.
\<close>

type_synonym Matrix = "real list"

definition Matrix_FromValues ::
  "real \<Rightarrow> real \<Rightarrow> real \<Rightarrow> real \<Rightarrow> real \<Rightarrow> real \<Rightarrow> real \<Rightarrow> real \<Rightarrow>
   real \<Rightarrow> real \<Rightarrow> real \<Rightarrow> real \<Rightarrow> real \<Rightarrow> real \<Rightarrow> real \<Rightarrow> real \<Rightarrow> Matrix" where
  "Matrix_FromValues a0 a1 a2 a3 a4 a5 a6 a7 a8 a9 a10 a11 a12 a13 a14 a15 =
     map Math_fround [a0, a1, a2, a3, a4, a5, a6, a7, a8, a9, a10, a11, a12, a13, a14, a15]"

definition wwtToBabylon :: "WWTVector3d \<Rightarrow> Vector3" where
  "wwtToBabylon wwtVec = \<lparr>vx = wx wwtVec, vy = wy wwtVec, vz = wz wwtVec\<rparr>"

definition babylonToWWT :: "Vector3 \<Rightarrow> WWTVector3d" where
  "babylonToWWT babylonVec = \<lparr>wx = vx babylonVec, wy = vy babylonVec, wz = vz babylonVec\<rparr>"

definition wwtMatrixToBabylon :: "WWTMatrix3d \<Rightarrow> Matrix" where
  "wwtMatrixToBabylon wwtMat =
     Matrix_FromValues
       (m11 wwtMat) (m21 wwtMat) (m31 wwtMat) (offsetX wwtMat)
       (m12 wwtMat) (m22 wwtMat) (m32 wwtMat) (offsetY wwtMat)
       (m13 wwtMat) (m23 wwtMat) (m33 wwtMat) (offsetZ wwtMat)
       (m14 wwtMat) (m24 wwtMat) (m34 wwtMat) (m44 wwtMat)"

definition babylonMatrixToWWT :: "Matrix \<Rightarrow> WWTMatrix3d" where
  "babylonMatrixToWWT babylonMat =
     (let m = babylonMat
      in \<lparr>m11 = m ! 0, m12 = m ! 4, m13 = m ! 8, m14 = m ! 12,
          m21 = m ! 1, m22 = m ! 5, m23 = m ! 9, m24 = m ! 13,
          m31 = m ! 2, m32 = m ! 6, m33 = m ! 10, m34 = m ! 14,
          offsetX = m ! 3,
          offsetY = m ! 7,
          offsetZ = m ! 11,
          m44 = m ! 15\<rparr>)"

definition batchWWTToBabylon :: "WWTVector3d list \<Rightarrow> Vector3 list" where
  "batchWWTToBabylon wwtVecs = map (\<lambda>v. \<lparr>vx = wx v, vy = wy v, vz = wz v\<rparr>) wwtVecs"

definition batchBabylonToWWT :: "Vector3 list \<Rightarrow> WWTVector3d list" where
  "batchBabylonToWWT babylonVecs = map (\<lambda>v. \<lparr>wx = vx v, wy = vy v, wz = vz v\<rparr>) babylonVecs"

section \<open>The camera animator\<close>

datatype EasingType = Linear | EaseIn | EaseOut | EaseInOut | Exponential

text \<open>
  The vectors of a configuration are references: the animator keeps the objects the
  caller passed. An absent \<open>useSphericalInterpolation\<close> reads as false. The duration is
  whatever number the caller passed.
\<close>

record CameraAnimationConfig =
  startPosition :: ref
  endPosition :: ref
  startTarget :: "ref option"
  endTarget :: "ref option"
  duration :: jsnum
  easing :: "EasingType option"
  useSphericalInterpolation :: bool

text \<open>
  Babylon.js easing functions (library code, modelled from the library's documented
  behaviour): a curve \<open>easeInCore\<close> and a mode; \<open>ExponentialEase\<close> has the default
  exponent 2.
\<close>

datatype EaseCurve = CubicEase | QuadraticEase | ExponentialEase

datatype EasingMode = EASINGMODE_EASEIN | EASINGMODE_EASEOUT | EASINGMODE_EASEINOUT

record EasingFunction =
  curve :: EaseCurve
  easingMode :: EasingMode

fun easeInCore :: "EaseCurve \<Rightarrow> real \<Rightarrow> real" where
  "easeInCore CubicEase g = g * g * g"
| "easeInCore QuadraticEase g = g * g"
| "easeInCore ExponentialEase g = (exp (2 * g) - 1) / (exp 2 - 1)"

definition ease :: "EasingFunction \<Rightarrow> real \<Rightarrow> real" where
  "ease f gradient =
     (case easingMode f of
        EASINGMODE_EASEIN \<Rightarrow> easeInCore (curve f) gradient
      | EASINGMODE_EASEOUT \<Rightarrow> 1 - easeInCore (curve f) (1 - gradient)
      | EASINGMODE_EASEINOUT \<Rightarrow>
          if 0.5 \<le> gradient
          then (1 - easeInCore (curve f) ((1 - gradient) * 2)) * 0.5 + 0.5
          else easeInCore (curve f) (gradient * 2) * 0.5)"

fun createEasingFunction :: "EasingType \<Rightarrow> EasingFunction" where
  "createEasingFunction Linear = \<lparr>curve = CubicEase, easingMode = EASINGMODE_EASEIN\<rparr>"
| "createEasingFunction EaseIn = \<lparr>curve = QuadraticEase, easingMode = EASINGMODE_EASEIN\<rparr>"
| "createEasingFunction EaseOut = \<lparr>curve = QuadraticEase, easingMode = EASINGMODE_EASEOUT\<rparr>"
| "createEasingFunction EaseInOut = \<lparr>curve = CubicEase, easingMode = EASINGMODE_EASEINOUT\<rparr>"
| "createEasingFunction Exponential =
     \<lparr>curve = ExponentialEase, easingMode = EASINGMODE_EASEINOUT\<rparr>"

record CameraAnimator =
  config :: CameraAnimationConfig
  startTime :: real
  currentTime :: real
  isAnimating :: bool
  easingFunction :: EasingFunction

text \<open>
  The world an animator runs in: the vector objects, the animator objects (a chain
  holds references to its animators), and the clock. \<open>performance.now()\<close> returns the
  next reading of the clock; reading it is the only effect on \<open>ticks\<close>.
\<close>

record world =
  vectors :: store
  animators :: "ref \<Rightarrow> CameraAnimator"
  clock :: "nat \<Rightarrow> real"
  ticks :: nat

definition performance_now :: "world \<Rightarrow> real \<times> world" where
  "performance_now w = (clock w (ticks w), w\<lparr>ticks := Suc (ticks w)\<rparr>)"

definition CameraAnimator_new :: "CameraAnimationConfig \<Rightarrow> CameraAnimator" where
  "CameraAnimator_new cfg =
     \<lparr>config = cfg, startTime = 0, currentTime = 0, isAnimating = False,
      easingFunction =
        createEasingFunction (case easing cfg of None \<Rightarrow> EaseInOut | Some t \<Rightarrow> t)\<rparr>"

definition CameraAnimator_start :: "CameraAnimator \<Rightarrow> world \<Rightarrow> CameraAnimator \<times> world" where
  "CameraAnimator_start a w =
     (let (now, w') = performance_now w
      in (a\<lparr>startTime := now, currentTime := 0, isAnimating := True\<rparr>, w'))"

text \<open>
  What \<open>update()\<close> returns. A vector of the result is either an object of the
  configuration (\<open>Obj\<close>), or a vector allocated by the call (\<open>New\<close>), or a vector
  allocated by the call from a progress that is NaN or \<open>-Infinity\<close>, whose components
  are not modelled (\<open>Indefinite\<close>).
\<close>

datatype vecval = Obj ref | New Vector3 | Indefinite

record frame =
  position :: vecval
  target :: "vecval option"

text \<open>
  The in-place effect of \<open>update()\<close> on the vectors, in the order of the source: in the
  spherical mode, \<open>startPosition.normalize()\<close> and \<open>endPosition.normalize()\<close>, then
  \<open>startTarget.normalize()\<close> and \<open>endTarget.normalize()\<close> when both targets are there.
\<close>

definition normalizePositions :: "CameraAnimationConfig \<Rightarrow> store \<Rightarrow> store" where
  "normalizePositions cfg h =
     (if useSphericalInterpolation cfg
      then normalize_at (endPosition cfg) (normalize_at (startPosition cfg) h)
      else h)"

definition normalizeTargets :: "CameraAnimationConfig \<Rightarrow> store \<Rightarrow> store" where
  "normalizeTargets cfg h =
     (case (startTarget cfg, endTarget cfg) of
        (Some st, Some et) \<Rightarrow>
          if useSphericalInterpolation cfg then normalize_at et (normalize_at st h) else h
      | _ \<Rightarrow> h)"

text \<open>The interpolated position, read from the store after \<open>normalizePositions\<close>.\<close>

definition interpolatePosition :: "CameraAnimationConfig \<Rightarrow> store \<Rightarrow> real \<Rightarrow> Vector3" where
  "interpolatePosition cfg h easedProgress =
     (if useSphericalInterpolation cfg
      then let position = slerp (h (startPosition cfg)) (h (endPosition cfg)) easedProgress;
               startDist = Vector3_length (h (startPosition cfg));
               endDist = Vector3_length (h (endPosition cfg));
               dist = startDist + (endDist - startDist) * easedProgress
           in Vector3_scale position dist
      else Vector3_Lerp (h (startPosition cfg)) (h (endPosition cfg)) easedProgress)"

text \<open>The interpolated target, read from the store after \<open>normalizeTargets\<close>.\<close>

definition interpolateTarget ::
  "CameraAnimationConfig \<Rightarrow> store \<Rightarrow> real \<Rightarrow> Vector3 option" where
  "interpolateTarget cfg h easedProgress =
     (case (startTarget cfg, endTarget cfg) of
        (Some st, Some et) \<Rightarrow>
          Some (if useSphericalInterpolation cfg then slerp (h st) (h et) easedProgress
                else Vector3_Lerp (h st) (h et) easedProgress)
      | _ \<Rightarrow> None)"

definition CameraAnimator_update ::
  "CameraAnimator \<Rightarrow> world \<Rightarrow> frame option \<times> CameraAnimator \<times> world" where
  "CameraAnimator_update a w =
     (if \<not> isAnimating a then (None, a, w)
      else
        let (now, w1) = performance_now w;
            a1 = a\<lparr>currentTime := now - startTime a\<rparr>;
            cfg = config a1;
            progress = Math_min1 (js_divide (currentTime a1) (duration cfg));
            h2 = normalizePositions cfg (vectors w1);
            h3 = normalizeTargets cfg h2;
            w3 = w1\<lparr>vectors := h3\<rparr>
        in case finite_value progress of
             Some p \<Rightarrow>
               let easedProgress = ease (easingFunction a1) p;
                   position = interpolatePosition cfg h2 easedProgress;
                   target = interpolateTarget cfg h3 easedProgress
               in if 1 \<le> p
                  then (Some \<lparr>position = Obj (endPosition cfg),
                              target = map_option Obj (endTarget cfg)\<rparr>,
                        a1\<lparr>isAnimating := False\<rparr>, w3)
                  else (Some \<lparr>position = New position, target = map_option New target\<rparr>,
                        a1, w3)
           | None \<Rightarrow>
               (Some \<lparr>position = Indefinite,
                      target = (case (startTarget cfg, endTarget cfg) of
                                  (Some st, Some et) \<Rightarrow> Some Indefinite
                                | _ \<Rightarrow> None)\<rparr>,
                a1, w3))"

text \<open>An animator is constructed from a configuration and started; this is its first
  \<open>update()\<close>.\<close>

definition first_update ::
  "CameraAnimationConfig \<Rightarrow> world \<Rightarrow> frame option \<times> CameraAnimator \<times> world" where
  "first_update cfg w =
     (let (a1, w1) = CameraAnimator_start (CameraAnimator_new cfg) w
      in CameraAnimator_update a1 w1)"

definition CameraAnimator_stop :: "CameraAnimator \<Rightarrow> CameraAnimator" where
  "CameraAnimator_stop a = a\<lparr>isAnimating := False\<rparr>"

definition CameraAnimator_active :: "CameraAnimator \<Rightarrow> bool" where
  "CameraAnimator_active a = isAnimating a"

definition CameraAnimator_progress :: "CameraAnimator \<Rightarrow> jsnum" where
  "CameraAnimator_progress a =
     (if \<not> isAnimating a then Num 1
      else Math_min1 (js_divide (currentTime a) (duration (config a))))"

text \<open>The value a vector of a frame has in a store.\<close>

fun components :: "store \<Rightarrow> vecval \<Rightarrow> Vector3 option" where
  "components h (Obj r) = Some (h r)"
| "components h (New v) = Some v"
| "components h Indefinite = None"

section \<open>The animation chain\<close>

text \<open>\<open>start()\<close> and \<open>update()\<close> called on the animator object at a reference.\<close>

definition start_at :: "ref \<Rightarrow> world \<Rightarrow> world" where
  "start_at r w =
     (let (a', w') = CameraAnimator_start (animators w r) w
      in w'\<lparr>animators := (animators w')(r := a')\<rparr>)"

definition update_at :: "ref \<Rightarrow> world \<Rightarrow> frame option \<times> world" where
  "update_at r w =
     (let (state, a', w') = CameraAnimator_update (animators w r) w
      in (state, w'\<lparr>animators := (animators w')(r := a')\<rparr>))"

record CameraAnimationChain =
  animations :: "ref list"
  currentIndex :: nat

definition CameraAnimationChain_new :: "ref list \<Rightarrow> CameraAnimationChain" where
  "CameraAnimationChain_new anims = \<lparr>animations = anims, currentIndex = 0\<rparr>"

definition CameraAnimationChain_start ::
  "CameraAnimationChain \<Rightarrow> world \<Rightarrow> CameraAnimationChain \<times> world" where
  "CameraAnimationChain_start c w =
     (if 0 < length (animations c)
      then (c\<lparr>currentIndex := 0\<rparr>, start_at (animations c ! 0) w)
      else (c, w))"

text \<open>
  \<open>update()\<close> of the chain calls itself after it has advanced the cursor. The test
  \<open>currentIndex < animations.length - 1\<close> is written \<open>Suc currentIndex < length\<close>.
\<close>

function CameraAnimationChain_update ::
  "CameraAnimationChain \<Rightarrow> world \<Rightarrow> frame option \<times> CameraAnimationChain \<times> world" where
  "CameraAnimationChain_update c w =
     (if length (animations c) \<le> currentIndex c then (None, c, w)
      else
        let current = animations c ! currentIndex c;
            sw = update_at current w
        in if fst sw = None \<and> Suc (currentIndex c) < length (animations c)
           then let c1 = c\<lparr>currentIndex := Suc (currentIndex c)\<rparr>;
                    w2 = start_at (animations c1 ! currentIndex c1) (snd sw)
                in CameraAnimationChain_update c1 w2
           else (fst sw, c, snd sw))"
  by pat_completeness auto
termination
  by (relation "measure (\<lambda>(c, w). length (animations c) - currentIndex c)") auto

declare CameraAnimationChain_update.simps [simp del]

definition CameraAnimationChain_active :: "CameraAnimationChain \<Rightarrow> world \<Rightarrow> bool" where
  "CameraAnimationChain_active c w \<longleftrightarrow>
     currentIndex c < length (animations c) \<and>
     isAnimating (animators w (animations c ! currentIndex c))"

section \<open>Concrete inputs\<close>

text \<open>The legacy identity matrix.\<close>

definition legacy_identity :: WWTMatrix3d where
  "legacy_identity =
     \<lparr>m11 = 1, m12 = 0, m13 = 0, m14 = 0, m21 = 0, m22 = 1, m23 = 0, m24 = 0,
      m31 = 0, m32 = 0, m33 = 1, m34 = 0, offsetX = 0, offsetY = 0, offsetZ = 0, m44 = 1\<rparr>"

text \<open>Two vector objects: \<open>(0, 0, 10)\<close> at reference 0 and \<open>(3, 0, 4)\<close> at reference 1.\<close>

definition example_vectors :: store where
  "example_vectors =
     (\<lambda>_. \<lparr>vx = 0, vy = 0, vz = 0\<rparr>)
       (0 := \<lparr>vx = 0, vy = 0, vz = 10\<rparr>, 1 := \<lparr>vx = 3, vy = 0, vz = 4\<rparr>)"

text \<open>A move from the first vector to the second, without targets.\<close>

definition example_move :: "bool \<Rightarrow> real \<Rightarrow> CameraAnimationConfig" where
  "example_move spherical d =
     \<lparr>startPosition = 0, endPosition = 1, startTarget = None, endTarget = None,
      duration = Num d, easing = Some Linear, useSphericalInterpolation = spherical\<rparr>"

text \<open>A world whose clock reads \<open>0, dt, 2 dt, ...\<close> and whose animators are all idle.\<close>

definition example_world :: "real \<Rightarrow> world" where
  "example_world dt =
     \<lparr>vectors = example_vectors,
      animators = (\<lambda>_. CameraAnimator_new (example_move False 1000)),
      clock = (\<lambda>n. dt * real n), ticks = 0\<rparr>"

text \<open>A chain of the animators at the references 0 and 1, with its cursor at \<open>i\<close>.\<close>

definition example_chain :: "nat \<Rightarrow> CameraAnimationChain" where
  "example_chain i = \<lparr>animations = [0, 1], currentIndex = i\<rparr>"

section \<open>Properties\<close>

subsection \<open>The double \<open>Math.PI\<close>\<close>

text \<open>The partial sums of the series of \<open>arctan\<close> enclose \<open>arctan x\<close>.\<close>

lemma arctan_series_bounds:
  assumes "0 < x" "x \<le> 1"
  shows "(\<Sum>i<2 * n. (- 1) ^ i * (1 / real (i * 2 + 1) * x ^ (i * 2 + 1))) \<le> arctan x"
    and "arctan x \<le> (\<Sum>i<2 * n + 1. (- 1) ^ i * (1 / real (i * 2 + 1) * x ^ (i * 2 + 1)))"
proof -
  have ax: "\<bar>x\<bar> \<le> 1" using assms by simp
  have pos: "0 < 1 / real (0 * 2 + 1) * x ^ (0 * 2 + 1)" using assms by simp
  have "(\<Sum>i. (- 1) ^ i * (1 / real (i * 2 + 1) * x ^ (i * 2 + 1)))
      \<in> {(\<Sum>i<2 * n. (- 1) ^ i * (1 / real (i * 2 + 1) * x ^ (i * 2 + 1))) ..
         (\<Sum>i<2 * n + 1. (- 1) ^ i * (1 / real (i * 2 + 1) * x ^ (i * 2 + 1)))}"
    using summable_Leibniz(2) [OF zeroseq_arctan_series [OF ax] monoseq_arctan_series [OF ax]] pos
    by blast
  then show "(\<Sum>i<2 * n. (- 1) ^ i * (1 / real (i * 2 + 1) * x ^ (i * 2 + 1))) \<le> arctan x"
    and "arctan x \<le> (\<Sum>i<2 * n + 1. (- 1) ^ i * (1 / real (i * 2 + 1) * x ^ (i * 2 + 1)))"
    by (simp_all add: arctan_series [OF ax])
qed

text \<open>By Machin's formula, \<open>Math.PI\<close> is below \<open>pi\<close>, by less than \<open>1e-15\<close>.\<close>

lemma Math_PI_less_pi: "Math_PI < pi"
proof -
  have "Math_PI < 16 * (\<Sum>i<12. (- 1) ^ i * (1 / real (i * 2 + 1) * (1 / 5) ^ (i * 2 + 1)))
                  - 4 * (\<Sum>i<5. (- 1) ^ i * (1 / real (i * 2 + 1) * (1 / 239) ^ (i * 2 + 1)))"
    unfolding Math_PI_def
    by (simp add: lessThan_nat_numeral lessThan_Suc power_numeral_reduce)
  also have "\<dots> \<le> 16 * arctan (1 / 5) - 4 * arctan (1 / 239)"
    using arctan_series_bounds(1) [of "1 / 5" 6] arctan_series_bounds(2) [of "1 / 239" 2]
    by simp
  also have "\<dots> = pi"
    using machin by simp
  finally show ?thesis .
qed

lemma pi_less_Math_PI_plus: "pi < Math_PI + 1 / 10 ^ 15"
proof -
  have "pi = 16 * arctan (1 / 5) - 4 * arctan (1 / 239)"
    using machin by simp
  also have "\<dots> \<le> 16 * (\<Sum>i<13. (- 1) ^ i * (1 / real (i * 2 + 1) * (1 / 5) ^ (i * 2 + 1)))
                  - 4 * (\<Sum>i<4. (- 1) ^ i * (1 / real (i * 2 + 1) * (1 / 239) ^ (i * 2 + 1)))"
    using arctan_series_bounds(2) [of "1 / 5" 6] arctan_series_bounds(1) [of "1 / 239" 2]
    by simp
  also have "\<dots> < Math_PI + 1 / 10 ^ 15"
    unfolding Math_PI_def
    by (simp add: lessThan_nat_numeral lessThan_Suc power_numeral_reduce)
  finally show ?thesis .
qed

lemma Math_PI_pos: "0 < Math_PI"
  by (simp add: Math_PI_def)

lemma Math_PI_gt_3: "3 < Math_PI"
  by (simp add: Math_PI_def)

lemma Math_PI_less_4: "Math_PI < 4"
  by (simp add: Math_PI_def)

lemma deg_to_rad_to_deg: "x * DEG_TO_RAD * RAD_TO_DEG = x"
  using Math_PI_pos by (simp add: DEG_TO_RAD_def RAD_TO_DEG_def)

lemma RAD_TO_DEG_pos: "0 < RAD_TO_DEG"
  using Math_PI_pos by (simp add: RAD_TO_DEG_def)

lemma Math_PI_deg: "Math_PI * RAD_TO_DEG = 180"
  using Math_PI_pos by (simp add: RAD_TO_DEG_def)

lemma Math_atan2_le: "Math_atan2 y x \<le> Math_PI"
  using Math_PI_pos by (simp add: Math_atan2_def)

lemma Math_atan2_deg_le_180: "Math_atan2 y x * RAD_TO_DEG \<le> 180"
proof -
  have "Math_atan2 y x * RAD_TO_DEG \<le> Math_PI * RAD_TO_DEG"
    using RAD_TO_DEG_pos by (intro mult_right_mono) (simp_all add: Math_atan2_le)
  then show ?thesis by (simp add: Math_PI_deg)
qed

subsection \<open>The longitude fold of \<open>cartesianToSpherical\<close>\<close>

lemma foldLongitude_le: "lng \<le> 180 \<Longrightarrow> foldLongitude lng = lng"
  by (simp add: foldLongitude_def)

text \<open>
  The fold is dead code: the longitude \<open>cartesianToSpherical\<close> computes, \<open>Math.atan2(z, x)\<close>
  in degrees, is at most 180, and the fold returns such a value as it is.
\<close>

lemma cartesianToSpherical_never_folds:
  "foldLongitude (Math_atan2 y x * RAD_TO_DEG) = Math_atan2 y x * RAD_TO_DEG"
  by (simp add: foldLongitude_le Math_atan2_deg_le_180)

lemma cartesianToSpherical_longitude:
  "uy (cartesianToSpherical vec) =
     (if Vector3_length vec = 0 then 0 else Math_atan2 (vz vec) (vx vec) * RAD_TO_DEG)"
  by (simp add: cartesianToSpherical_def Let_def cartesianToSpherical_never_folds)

lemma cartesianToSpherical_longitude_le_180: "uy (cartesianToSpherical vec) \<le> 180"
  by (simp add: cartesianToSpherical_longitude Math_atan2_deg_le_180)


subsection \<open>The round trip \<open>cartesianToSpherical(geoTo3D(lat, lng))\<close>\<close>

lemma cos_neg_above_half_pi:
  assumes "pi / 2 < l" "l \<le> pi"
  shows "cos l < 0"
proof -
  have "cos l < cos (pi / 2)"
    using assms by (intro cos_monotone_0_pi) simp_all
  then show ?thesis by simp
qed

text \<open>\<open>atan2\<close> recovers an angle of \<open>(-pi, pi]\<close> from its sine and cosine, scaled by any
  positive factor.\<close>

lemma real_atan2_sin_cos:
  assumes "- pi < l" "l \<le> pi" "0 < c"
  shows "real_atan2 (sin l * c) (cos l * c) = l"
proof -
  consider "- (pi / 2) < l \<and> l < pi / 2" | "l = pi / 2" | "l = - (pi / 2)"
    | "pi / 2 < l" | "l < - (pi / 2)"
    by linarith
  then show ?thesis
  proof cases
    case 1
    then have "0 < cos l" by (simp add: cos_gt_zero_pi)
    then have "0 < cos l * c" using assms(3) by simp
    moreover have "sin l * c / (cos l * c) = tan l"
      using assms(3) by (simp add: tan_def)
    ultimately show ?thesis
      using 1 by (simp add: real_atan2_def arctan_tan)
  next
    case 2
    have "real_atan2 (sin (pi / 2) * c) (cos (pi / 2) * c) = pi / 2"
      using assms(3) by (simp add: real_atan2_def)
    then show ?thesis unfolding 2 .
  next
    case 3
    have "real_atan2 (sin (- (pi / 2)) * c) (cos (- (pi / 2)) * c) = - (pi / 2)"
      using assms(3) by (simp add: real_atan2_def)
    then show ?thesis unfolding 3 .
  next
    case 4
    have c: "cos l < 0" using 4 assms(2) by (rule cos_neg_above_half_pi)
    have s: "0 \<le> sin l" using 4 assms(2) pi_gt_zero by (intro sin_ge_zero) linarith+
    have x: "cos l * c < 0" using c assms(3) by (simp add: mult_neg_pos)
    have y: "0 \<le> sin l * c" using s assms(3) by simp
    have "sin l * c / (cos l * c) = tan l"
      using assms(3) by (simp add: tan_def)
    also have "\<dots> = tan (l - pi)"
      using tan_periodic_pi [of "l - pi"] by simp
    finally have q: "sin l * c / (cos l * c) = tan (l - pi)" .
    have "arctan (tan (l - pi)) = l - pi"
      using 4 assms(2) by (intro arctan_tan) linarith+
    then show ?thesis
      using x y q by (simp add: real_atan2_def)
  next
    case 5
    have "cos (- l) < 0" using 5 assms(1) by (intro cos_neg_above_half_pi) linarith+
    then have c: "cos l < 0" by simp
    have "0 < sin (- l)" using 5 assms(1) by (intro sin_gt_zero) linarith+
    then have s: "sin l < 0" by simp
    have x: "cos l * c < 0" using c assms(3) by (simp add: mult_neg_pos)
    have y: "\<not> 0 \<le> sin l * c" using s assms(3) by (simp add: mult_neg_pos not_le)
    have "sin l * c / (cos l * c) = tan l"
      using assms(3) by (simp add: tan_def)
    also have "\<dots> = tan (l + pi)"
      by simp
    finally have q: "sin l * c / (cos l * c) = tan (l + pi)" .
    have "arctan (tan (l + pi)) = l + pi"
      using 5 assms(1) by (intro arctan_tan) linarith+
    then show ?thesis
      using x y q by (simp add: real_atan2_def)
  qed
qed

lemma geoTo3D_length: "Vector3_length (geoTo3D lat lng 1) = 1"
proof -
  define cg sg cl sl where "cg = cos (lng * DEG_TO_RAD)" and "sg = sin (lng * DEG_TO_RAD)"
    and "cl = cos (lat * DEG_TO_RAD)" and "sl = sin (lat * DEG_TO_RAD)"
  have g: "cg * cg + sg * sg = 1" and l: "cl * cl + sl * sl = 1"
    by (simp_all add: cg_def sg_def cl_def sl_def)
  have "cg * cl * (cg * cl) + sl * sl + sg * cl * (sg * cl)
      = (cg * cg + sg * sg) * (cl * cl) + sl * sl"
    by (simp add: algebra_simps)
  also have "\<dots> = 1" by (simp add: g l)
  finally have "sqrt (cg * cl * (cg * cl) + sl * sl + sg * cl * (sg * cl)) = 1"
    by simp
  then show ?thesis
    by (simp add: Vector3_length_def geoTo3D_def Let_def cg_def sg_def cl_def sl_def)
qed

lemma latRad_range:
  assumes "- 90 \<le> lat" "lat \<le> 90"
  shows "- (Math_PI / 2) \<le> lat * DEG_TO_RAD" and "lat * DEG_TO_RAD \<le> Math_PI / 2"
proof -
  have "(- 90) * (Math_PI / 180) \<le> lat * (Math_PI / 180)"
    using assms(1) Math_PI_pos by (intro mult_right_mono) simp_all
  then show "- (Math_PI / 2) \<le> lat * DEG_TO_RAD"
    by (simp add: DEG_TO_RAD_def)
  have "lat * (Math_PI / 180) \<le> 90 * (Math_PI / 180)"
    using assms(2) Math_PI_pos by (intro mult_right_mono) simp_all
  then show "lat * DEG_TO_RAD \<le> Math_PI / 2"
    by (simp add: DEG_TO_RAD_def)
qed

lemma cos_latRad_pos:
  assumes "- 90 \<le> lat" "lat \<le> 90"
  shows "0 < cos (lat * DEG_TO_RAD)"
  using latRad_range [OF assms] Math_PI_less_pi by (intro cos_gt_zero_pi) linarith+

lemma lngRad_range:
  assumes "- 180 < lng" "lng \<le> 180"
  shows "- Math_PI < lng * DEG_TO_RAD" and "lng * DEG_TO_RAD \<le> Math_PI"
proof -
  have "(- 180) * (Math_PI / 180) < lng * (Math_PI / 180)"
    using assms(1) Math_PI_pos by (intro mult_strict_right_mono) simp_all
  then show "- Math_PI < lng * DEG_TO_RAD"
    by (simp add: DEG_TO_RAD_def)
  have "lng * (Math_PI / 180) \<le> 180 * (Math_PI / 180)"
    using assms(2) Math_PI_pos by (intro mult_right_mono) simp_all
  then show "lng * DEG_TO_RAD \<le> Math_PI"
    by (simp add: DEG_TO_RAD_def)
qed

text \<open>The longitude comes back: the cosine of the latitude is positive even at the
  poles, because \<open>Math.PI / 2\<close> is below \<open>pi / 2\<close>.\<close>

lemma roundtrip_longitude:
  assumes "- 90 \<le> lat" "lat \<le> 90" "- 180 < lng" "lng \<le> 180"
  shows "uy (cartesianToSpherical (geoTo3D lat lng 1)) = lng"
proof -
  let ?l = "lng * DEG_TO_RAD"
  let ?c = "cos (lat * DEG_TO_RAD)"
  note r = lngRad_range [OF assms(3,4)]
  have "real_atan2 (sin ?l * ?c) (cos ?l * ?c) = ?l"
    using r Math_PI_less_pi cos_latRad_pos [OF assms(1,2)]
    by (intro real_atan2_sin_cos) linarith+
  then have "Math_atan2 (sin ?l * ?c) (cos ?l * ?c) = ?l"
    using r by (simp add: Math_atan2_def)
  then show ?thesis
    by (simp add: cartesianToSpherical_longitude geoTo3D_length)
       (simp add: geoTo3D_def Let_def deg_to_rad_to_deg)
qed

subsection \<open>Rounding to a double\<close>

lemma roundTiesToEven_error: "\<bar>of_int (roundTiesToEven r) - r\<bar> \<le> 1 / 2"
proof -
  have "of_int \<lfloor>r\<rfloor> \<le> r" "r < of_int \<lfloor>r\<rfloor> + 1" by linarith+
  then show ?thesis
    by (auto simp: roundTiesToEven_def Let_def)
qed

lemma roundTiesToEven_le:
  assumes "r \<le> of_int n"
  shows "roundTiesToEven r \<le> n"
proof -
  have f: "of_int \<lfloor>r\<rfloor> \<le> r" by linarith
  have "\<lfloor>r\<rfloor> \<le> n" using assms f by linarith
  moreover have "\<lfloor>r\<rfloor> + 1 \<le> n" if "1 / 2 \<le> r - of_int \<lfloor>r\<rfloor>"
  proof -
    have "of_int \<lfloor>r\<rfloor> < (of_int n :: real)" using that assms by linarith
    then show ?thesis by simp
  qed
  ultimately show ?thesis
    by (auto simp: roundTiesToEven_def Let_def not_less)
qed

lemma roundTiesToEven_ge:
  assumes "of_int n \<le> r"
  shows "n \<le> roundTiesToEven r"
proof -
  have "n \<le> \<lfloor>r\<rfloor>" using assms by (simp add: le_floor_iff)
  then show ?thesis
    by (auto simp: roundTiesToEven_def Let_def)
qed

text \<open>For \<open>x\<close> in \<open>[-1, 1]\<close> the double nearest to \<open>x\<close> is in \<open>[-1, 1]\<close> and differs from \<open>x\<close>
  by at most \<open>2^-53\<close>.\<close>

lemma to_double_unit:
  assumes "\<bar>x\<bar> \<le> 1"
  shows "\<bar>to_double x - x\<bar> \<le> 1 / 2 ^ 53" and "\<bar>to_double x\<bar> \<le> 1"
proof -
  have "\<bar>to_double x - x\<bar> \<le> 1 / 2 ^ 53 \<and> \<bar>to_double x\<bar> \<le> 1"
  proof (cases "x = 0")
    case True
    then show ?thesis by (simp add: to_double_def)
  next
    case False
    define e where "e = max \<lfloor>log 2 \<bar>x\<bar>\<rfloor> (- 1022)"
    define q :: real where "q = 2 powr of_int (e - 52)"
    define R where "R = roundTiesToEven (x / q)"
    have td: "to_double x = of_int R * q"
      using False by (simp add: to_double_def Let_def e_def q_def R_def)
    have "log 2 \<bar>x\<bar> \<le> 0" using False assms by simp
    then have "\<lfloor>log 2 \<bar>x\<bar>\<rfloor> \<le> 0" by (simp add: floor_le_iff)
    then have e0: "e \<le> 0" by (simp add: e_def)
    have qpos: "0 < q" by (simp add: q_def)
    have "q \<le> 2 powr (- 52)"
      unfolding q_def using e0 by (intro powr_mono) simp_all
    also have "\<dots> = 1 / 2 ^ 52"
      by (simp add: powr_minus_divide)
    finally have qle: "q \<le> 1 / 2 ^ 52" .
    have "of_int R * q - x = (of_int R - x / q) * q"
      using qpos by (simp add: field_simps)
    then have "\<bar>of_int R * q - x\<bar> = \<bar>of_int R - x / q\<bar> * q"
      using qpos by (simp add: abs_mult)
    also have "\<dots> \<le> 1 / 2 * q"
      using roundTiesToEven_error [of "x / q"] qpos
      by (intro mult_right_mono) (simp_all add: R_def)
    also have "\<dots> \<le> 1 / 2 ^ 53"
      using qle by simp
    finally have err: "\<bar>to_double x - x\<bar> \<le> 1 / 2 ^ 53"
      by (simp add: td)
    define N :: int where "N = 2 ^ nat (52 - e)"
    have "1 / q = 2 powr of_int (52 - e)"
      by (simp add: q_def powr_minus_divide [symmetric])
    also have "\<dots> = 2 ^ nat (52 - e)"
      using e0 by (subst powr_real_of_int) simp_all
    also have "\<dots> = of_int N"
      by (simp add: N_def)
    finally have Nq: "1 / q = of_int N" .
    then have qN: "of_int N * q = 1"
      using qpos by (simp add: field_simps)
    have "x / q \<le> of_int N"
      using assms qpos Nq by (simp add: field_simps)
    then have "R \<le> N" unfolding R_def by (rule roundTiesToEven_le)
    then have "of_int R * q \<le> of_int N * q"
      using qpos by (intro mult_right_mono) simp_all
    then have up: "to_double x \<le> 1" by (simp add: td qN)
    have "of_int (- N) \<le> x / q"
      using assms qpos Nq by (simp add: field_simps)
    then have "- N \<le> R" unfolding R_def by (rule roundTiesToEven_ge)
    then have "of_int (- N) * q \<le> of_int R * q"
      using qpos by (intro mult_right_mono) simp_all
    then have lo: "- 1 \<le> to_double x" using qN by (simp add: td)
    from err up lo show ?thesis by simp
  qed
  then show "\<bar>to_double x - x\<bar> \<le> 1 / 2 ^ 53" and "\<bar>to_double x\<bar> \<le> 1" by simp_all
qed


text \<open>A number within \<open>2^-54\<close> below 1 is rounded to 1.\<close>

lemma to_double_near_1:
  assumes "1 - 1 / 2 ^ 54 < a" "a < 1"
  shows "to_double a = 1"
proof -
  have a0: "a \<noteq> 0" "0 < a" using assms(1) by simp_all
  have "\<lfloor>log 2 a\<rfloor> = - 1"
    using assms a0 by (subst floor_log_eq_powr_iff) (simp_all add: powr_minus_divide)
  then have e: "max \<lfloor>log 2 a\<rfloor> (- 1022) = - 1" by simp
  have q: "(2::real) powr (- 53) = 1 / 2 ^ 53"
    by (simp add: powr_minus_divide)
  have "\<lfloor>a * 2 ^ 53\<rfloor> = 2 ^ 53 - 1"
    using assms by (simp add: floor_eq_iff field_simps)
  moreover have "1 / 2 < a * 2 ^ 53 - (2 ^ 53 - 1)"
    using assms by (simp add: field_simps)
  ultimately have "roundTiesToEven (a * 2 ^ 53) = 2 ^ 53"
    by (simp add: roundTiesToEven_def Let_def)
  then show ?thesis
    using a0 by (simp add: to_double_def Let_def e q)
qed

subsection \<open>The arc sine of a rounded sine\<close>

lemma pi_gt_3: "3 < pi"
  using Math_PI_less_pi Math_PI_gt_3 by linarith

lemma sin_ge_half_arg:
  assumes "0 \<le> h" "h \<le> pi / 3"
  shows "h / 2 \<le> sin h"
proof -
  have "sin 0 - 0 / 2 \<le> sin h - h / 2"
  proof (rule DERIV_nonneg_imp_nondecreasing [of 0 h "\<lambda>x. sin x - x / 2"])
    show "0 \<le> h" by (rule assms(1))
  next
    fix x :: real
    assume x: "0 \<le> x" "x \<le> h"
    have d: "((\<lambda>x. sin x - x / 2) has_real_derivative cos x - 1 / 2) (at x)"
      by (auto intro!: derivative_eq_intros)
    have "cos (pi / 3) \<le> cos x"
      using x assms(2) by (intro cos_monotone_0_pi_le) linarith+
    then have "0 \<le> cos x - 1 / 2" by (simp add: cos_60)
    with d show "\<exists>y. ((\<lambda>x. sin x - x / 2) has_real_derivative y) (at x) \<and> 0 \<le> y"
      by blast
  qed
  then show ?thesis by simp
qed

text \<open>Two angles of \<open>[-pi/2, pi/2]\<close>, \<open>2 h\<close> apart, have sines at least \<open>2 sin\<^sup>2 h\<close> apart;
  when their mean is \<open>m\<close>, the sines are \<open>2 sin h cos m\<close> apart.\<close>

lemma sin_diff_lower:
  assumes "- (pi / 2) \<le> v" "v \<le> u" "u \<le> pi / 2"
  shows "2 * (sin ((u - v) / 2))\<^sup>2 \<le> sin u - sin v"
proof -
  define h where "h = (u - v) / 2"
  define m where "m = (u + v) / 2"
  have h: "0 \<le> h" "h \<le> pi / 2" using assms by (simp_all add: h_def)
  have "m \<le> pi / 2 - h"
    unfolding h_def m_def using assms by (simp add: field_simps)
  moreover have "- m \<le> pi / 2 - h"
    unfolding h_def m_def using assms by (simp add: field_simps)
  ultimately have m: "\<bar>m\<bar> \<le> pi / 2 - h" by (simp only: abs_le_iff)
  have sh: "0 \<le> sin h" using h pi_gt_zero by (intro sin_ge_zero) linarith+
  have "cos (pi / 2 - h) \<le> cos \<bar>m\<bar>"
    using m h by (intro cos_monotone_0_pi_le) linarith+
  then have "sin h \<le> cos m"
    by (simp add: cos_diff)
  then have "sin h * sin h \<le> sin h * cos m"
    using sh by (intro mult_left_mono)
  moreover have "sin u - sin v = 2 * sin h * cos m"
    unfolding h_def m_def by (rule sin_diff_sin)
  ultimately show ?thesis
    by (simp add: h_def [symmetric] power2_eq_square)
qed

lemma small_sine_small_angle:
  assumes "0 \<le> h" "h \<le> pi / 2" "sin h \<le> s" "s < 1 / 2"
  shows "h \<le> 2 * s"
proof -
  have "h < pi / 6"
  proof (rule ccontr)
    assume "\<not> h < pi / 6"
    then have "sin (pi / 6) \<le> sin h"
      using assms(2) by (intro sin_monotone_2pi_le) linarith+
    then show False using assms(3,4) by (simp add: sin_30)
  qed
  then have "h / 2 \<le> sin h"
    using assms(1) by (intro sin_ge_half_arg) linarith+
  then show ?thesis using assms(3) by linarith
qed

lemma arcsin_perturbation_ordered:
  assumes "- (pi / 2) \<le> v" "v \<le> u" "u \<le> pi / 2" "sin u - sin v \<le> 1 / 2 ^ 53"
  shows "u - v \<le> 1 / 2 ^ 25"
proof -
  define h where "h = (u - v) / 2"
  have h: "0 \<le> h" "h \<le> pi / 2" using assms by (simp_all add: h_def)
  have sh: "0 \<le> sin h" using h pi_gt_zero by (intro sin_ge_zero) linarith+
  have "2 * (sin h)\<^sup>2 \<le> 1 / 2 ^ 53"
    using sin_diff_lower [OF assms(1-3)] assms(4) by (simp add: h_def)
  then have "(sin h)\<^sup>2 \<le> (1 / 2 ^ 27)\<^sup>2"
    by (simp add: power2_eq_square)
  then have "sin h \<le> 1 / 2 ^ 27"
    by (rule power2_le_imp_le) simp
  then have "h \<le> 2 * (1 / 2 ^ 27)"
    using h by (intro small_sine_small_angle) simp_all
  then show ?thesis by (simp add: h_def)
qed

lemma arcsin_perturbation:
  assumes "- (pi / 2) \<le> u" "u \<le> pi / 2" "- (pi / 2) \<le> v" "v \<le> pi / 2"
    and "\<bar>sin u - sin v\<bar> \<le> 1 / 2 ^ 53"
  shows "\<bar>u - v\<bar> \<le> 1 / 2 ^ 25"
proof (cases "v \<le> u")
  case True
  have "sin u - sin v \<le> 1 / 2 ^ 53" using assms(5) by linarith
  from arcsin_perturbation_ordered [OF assms(3) True assms(2) this] True
  show ?thesis by simp
next
  case False
  then have le: "u \<le> v" by simp
  have "sin v - sin u \<le> 1 / 2 ^ 53" using assms(5) by linarith
  from arcsin_perturbation_ordered [OF assms(1) le assms(4) this] le
  show ?thesis by simp
qed

text \<open>Away from the poles the rounding is not magnified: for an angle of at most 89
  degrees the cosine of the mean is above \<open>1 / 240\<close>.\<close>

lemma arcsin_perturbation_ordered_inner:
  assumes "- (pi / 2) \<le> v" "v \<le> u" "u \<le> pi / 2" "sin u - sin v \<le> 1 / 2 ^ 53"
    and "\<bar>u + v\<bar> \<le> 179 * pi / 180"
  shows "u - v \<le> 1 / 2 ^ 43"
proof -
  define h where "h = (u - v) / 2"
  define m where "m = (u + v) / 2"
  have h: "0 \<le> h" "h \<le> pi / 2" using assms by (simp_all add: h_def)
  have sh: "0 \<le> sin h" using h pi_gt_zero by (intro sin_ge_zero) linarith+
  have "u + v \<le> 179 * pi / 180" "- (u + v) \<le> 179 * pi / 180"
    using assms(5) by (simp_all only: abs_le_iff)
  then have "m \<le> pi / 2 - pi / 360 \<and> - m \<le> pi / 2 - pi / 360"
    unfolding m_def by (simp add: field_simps)
  then have m: "\<bar>m\<bar> \<le> pi / 2 - pi / 360" by (simp only: abs_le_iff)
  have eq: "cos (pi / 2 - pi / 360) = sin (pi / 360)"
    by (subst cos_diff) simp
  have "cos (pi / 2 - pi / 360) \<le> cos \<bar>m\<bar>"
    using m pi_gt_zero by (intro cos_monotone_0_pi_le) linarith+
  then have "sin (pi / 360) \<le> cos m"
    unfolding eq by simp
  moreover have "pi / 360 / 2 \<le> sin (pi / 360)"
    using pi_gt_zero by (intro sin_ge_half_arg) simp_all
  moreover have "1 / 240 \<le> pi / 360 / 2"
    using pi_gt_3 by simp
  ultimately have cm: "1 / 240 \<le> cos m" by linarith
  have "sin h * (1 / 240) \<le> sin h * cos m"
    using sh cm by (intro mult_left_mono)
  moreover have "sin u - sin v = 2 * sin h * cos m"
    unfolding h_def m_def by (rule sin_diff_sin)
  ultimately have "sin h \<le> 120 / 2 ^ 53"
    using assms(4) by simp
  then have "h \<le> 2 * (120 / 2 ^ 53)"
    using h by (intro small_sine_small_angle) simp_all
  then show ?thesis by (simp add: h_def)
qed

lemma arcsin_perturbation_inner:
  assumes "- (pi / 2) \<le> u" "u \<le> pi / 2" "- (pi / 2) \<le> v" "v \<le> pi / 2"
    and "\<bar>sin u - sin v\<bar> \<le> 1 / 2 ^ 53" and "\<bar>u\<bar> \<le> 89 * pi / 180"
  shows "\<bar>u - v\<bar> \<le> 1 / 2 ^ 43"
proof -
  have "\<bar>u - v\<bar> \<le> 1 / 2 ^ 25"
    using assms(1-5) by (rule arcsin_perturbation)
  moreover have "(1::real) / 2 ^ 25 \<le> pi / 180"
    using pi_gt_3 by simp
  ultimately have s: "\<bar>u + v\<bar> \<le> 179 * pi / 180"
    using assms(6) by linarith
  show ?thesis
  proof (cases "v \<le> u")
    case True
    have "sin u - sin v \<le> 1 / 2 ^ 53" using assms(5) by linarith
    from arcsin_perturbation_ordered_inner [OF assms(3) True assms(2) this s] True
    show ?thesis by simp
  next
    case False
    then have le: "u \<le> v" by simp
    have "sin v - sin u \<le> 1 / 2 ^ 53" using assms(5) by linarith
    moreover have "\<bar>v + u\<bar> \<le> 179 * pi / 180" using s by (simp add: add.commute)
    ultimately show ?thesis
      using arcsin_perturbation_ordered_inner [OF assms(1) le assms(4)] le by simp
  qed
qed

subsection \<open>The latitude of the round trip\<close>

lemma roundtrip_latitude_value:
  "ux (cartesianToSpherical (geoTo3D lat lng 1)) =
     Math_asin (to_double (sin (lat * DEG_TO_RAD))) * RAD_TO_DEG"
  by (simp add: cartesianToSpherical_def Let_def geoTo3D_length)
     (simp add: geoTo3D_def Let_def)

lemma Math_asin_nearer:
  assumes "- (Math_PI / 2) \<le> u" "u \<le> Math_PI / 2"
  shows "\<bar>Math_asin b - u\<bar> \<le> \<bar>arcsin b - u\<bar>"
  unfolding Math_asin_def using assms by linarith

lemma RAD_TO_DEG_less_60: "RAD_TO_DEG < 60"
  using Math_PI_gt_3 by (simp add: RAD_TO_DEG_def field_simps)

lemma degrees_error:
  assumes "\<bar>w - lat * DEG_TO_RAD\<bar> \<le> e"
  shows "\<bar>w * RAD_TO_DEG - lat\<bar> \<le> 60 * e"
proof -
  have "w * RAD_TO_DEG - lat = (w - lat * DEG_TO_RAD) * RAD_TO_DEG"
    by (simp add: left_diff_distrib deg_to_rad_to_deg)
  then have "\<bar>w * RAD_TO_DEG - lat\<bar> = \<bar>w - lat * DEG_TO_RAD\<bar> * RAD_TO_DEG"
    using RAD_TO_DEG_pos by (simp add: abs_mult)
  also have "\<dots> \<le> e * 60"
    using assms RAD_TO_DEG_less_60 RAD_TO_DEG_pos by (intro mult_mono) simp_all
  finally show ?thesis by simp
qed

lemma roundtrip_latitude_radians:
  assumes "- 90 \<le> lat" "lat \<le> 90"
  shows "\<bar>Math_asin (to_double (sin (lat * DEG_TO_RAD))) - lat * DEG_TO_RAD\<bar> \<le> 1 / 2 ^ 25"
    and "\<bar>lat\<bar> \<le> 89 \<Longrightarrow>
         \<bar>Math_asin (to_double (sin (lat * DEG_TO_RAD))) - lat * DEG_TO_RAD\<bar> \<le> 1 / 2 ^ 43"
proof -
  define u where "u = lat * DEG_TO_RAD"
  define b where "b = to_double (sin u)"
  define v where "v = arcsin b"
  note r = latRad_range [OF assms, folded u_def]
  have u: "- (pi / 2) \<le> u" "u \<le> pi / 2"
    using r Math_PI_less_pi by linarith+
  have b: "\<bar>b - sin u\<bar> \<le> 1 / 2 ^ 53" "\<bar>b\<bar> \<le> 1"
    unfolding b_def by (rule to_double_unit, simp)+
  then have b1: "- 1 \<le> b" "b \<le> 1" by linarith+
  have v: "- (pi / 2) \<le> v" "v \<le> pi / 2"
    unfolding v_def using arcsin_bounded [OF b1] by blast+
  have sv: "sin v = b"
    unfolding v_def using b1 by (rule sin_arcsin)
  have d: "\<bar>sin u - sin v\<bar> \<le> 1 / 2 ^ 53"
    using b(1) by (simp add: sv abs_minus_commute)
  have n: "\<bar>Math_asin b - u\<bar> \<le> \<bar>v - u\<bar>"
    unfolding v_def using r by (rule Math_asin_nearer)
  have "\<bar>u - v\<bar> \<le> 1 / 2 ^ 25"
    using u v d by (rule arcsin_perturbation)
  with n show "\<bar>Math_asin (to_double (sin (lat * DEG_TO_RAD))) - lat * DEG_TO_RAD\<bar> \<le> 1 / 2 ^ 25"
    by (simp add: b_def u_def abs_minus_commute)
  show "\<bar>Math_asin (to_double (sin (lat * DEG_TO_RAD))) - lat * DEG_TO_RAD\<bar> \<le> 1 / 2 ^ 43"
    if l: "\<bar>lat\<bar> \<le> 89"
  proof -
    have "\<bar>u\<bar> = \<bar>lat\<bar> * (Math_PI / 180)"
      using Math_PI_pos by (simp add: u_def DEG_TO_RAD_def abs_mult)
    also have "\<dots> \<le> 89 * (Math_PI / 180)"
      using l Math_PI_pos by (intro mult_right_mono) simp_all
    also have "\<dots> \<le> 89 * pi / 180"
      using Math_PI_less_pi by simp
    finally have "\<bar>u\<bar> \<le> 89 * pi / 180" .
    with u v d have "\<bar>u - v\<bar> \<le> 1 / 2 ^ 43"
      by (rule arcsin_perturbation_inner)
    with n show ?thesis
      by (simp add: b_def u_def abs_minus_commute)
  qed
qed

lemma roundtrip_latitude:
  assumes "- 90 \<le> lat" "lat \<le> 90"
  shows "\<bar>ux (cartesianToSpherical (geoTo3D lat lng 1)) - lat\<bar> \<le> 1 / 10 ^ 5"
    and "\<bar>lat\<bar> \<le> 89 \<Longrightarrow> \<bar>ux (cartesianToSpherical (geoTo3D lat lng 1)) - lat\<bar> \<le> 1 / 10 ^ 9"
proof -
  have "\<bar>ux (cartesianToSpherical (geoTo3D lat lng 1)) - lat\<bar> \<le> 60 * (1 / 2 ^ 25)"
    unfolding roundtrip_latitude_value
    by (rule degrees_error) (rule roundtrip_latitude_radians(1) [OF assms])
  then show "\<bar>ux (cartesianToSpherical (geoTo3D lat lng 1)) - lat\<bar> \<le> 1 / 10 ^ 5"
    by simp
  show "\<bar>ux (cartesianToSpherical (geoTo3D lat lng 1)) - lat\<bar> \<le> 1 / 10 ^ 9"
    if "\<bar>lat\<bar> \<le> 89"
  proof -
    have "\<bar>ux (cartesianToSpherical (geoTo3D lat lng 1)) - lat\<bar> \<le> 60 * (1 / 2 ^ 43)"
      unfolding roundtrip_latitude_value
      by (rule degrees_error) (rule roundtrip_latitude_radians(2) [OF assms that])
    then show ?thesis by simp
  qed
qed

text \<open>At the latitude 89.9999999 the sine is within \<open>2^-54\<close> of 1, its double is 1, and
  the latitude that comes back is 90.\<close>

lemma sin_near_pole:
  shows "1 - 1 / 2 ^ 54 < sin (89.9999999 * DEG_TO_RAD)"
    and "sin (89.9999999 * DEG_TO_RAD) < 1"
proof -
  define u where "u = 89.9999999 * DEG_TO_RAD"
  define w where "w = (pi / 2 - u) / 2"
  have u1: "u < Math_PI / 2" and u0: "0 < u"
    using Math_PI_pos by (simp_all add: u_def DEG_TO_RAD_def)
  have "sin u < sin (pi / 2)"
    using u1 u0 Math_PI_less_pi by (intro sin_monotone_2pi) linarith+
  then show "sin (89.9999999 * DEG_TO_RAD) < 1"
    by (simp add: u_def)
  have "pi / 2 - u < (Math_PI + 1 / 10 ^ 15) / 2 - u"
    using pi_less_Math_PI_plus by simp
  also have "\<dots> < 2 / 10 ^ 9"
    by (simp add: u_def DEG_TO_RAD_def Math_PI_def)
  finally have "w < 1 / 10 ^ 9" by (simp add: w_def)
  moreover have "0 < w"
    using u1 Math_PI_less_pi by (simp add: w_def)
  ultimately have wa: "\<bar>w\<bar> < 1 / 10 ^ 9" by simp
  have "\<bar>sin w\<bar> \<le> \<bar>w\<bar>" by (rule abs_sin_x_le_abs_x)
  with wa have "\<bar>sin w\<bar> < 1 / 10 ^ 9" by linarith
  then have "\<bar>sin w\<bar> * \<bar>sin w\<bar> < (1 / 10 ^ 9) * (1 / 10 ^ 9)"
    by (intro mult_strict_mono') simp_all
  then have s2: "(sin w)\<^sup>2 < 1 / 10 ^ 18"
    by (simp add: power2_eq_square abs_mult [symmetric])
  have "sin u = cos (pi / 2 - u)"
    by (subst cos_diff) simp
  also have "pi / 2 - u = 2 * w"
    by (simp add: w_def)
  also have "cos (2 * w) = 1 - 2 * (sin w)\<^sup>2"
    by (rule cos_double_sin)
  finally have "sin u = 1 - 2 * (sin w)\<^sup>2" .
  with s2 have "1 - 2 / 10 ^ 18 < sin u" by simp
  then show "1 - 1 / 2 ^ 54 < sin (89.9999999 * DEG_TO_RAD)"
    by (simp add: u_def)
qed

lemma Math_asin_1: "Math_asin 1 = Math_PI / 2"
  using Math_PI_less_pi Math_PI_pos by (simp add: Math_asin_def)


text \<open>
  C4 (as stated, refuted): for the latitude 89.9999999 and the longitude 10 the round
  trip returns the latitude 90, which is \<open>1e-7\<close> away, not within \<open>1e-9\<close>.
\<close>

theorem roundtrip_near_pole_returns_pole:
  "ux (cartesianToSpherical (geoTo3D 89.9999999 10 1)) = 90 \<and>
   \<not> \<bar>ux (cartesianToSpherical (geoTo3D 89.9999999 10 1)) - 89.9999999\<bar> \<le> 1 / 10 ^ 9"
proof -
  have "to_double (sin (89.9999999 * DEG_TO_RAD)) = 1"
    by (rule to_double_near_1 [OF sin_near_pole(1) sin_near_pole(2)])
  then have "ux (cartesianToSpherical (geoTo3D 89.9999999 10 1)) = Math_PI / 2 * RAD_TO_DEG"
    by (simp only: roundtrip_latitude_value Math_asin_1)
  also have "\<dots> = 90"
    using Math_PI_pos by (simp add: RAD_TO_DEG_def)
  finally have "ux (cartesianToSpherical (geoTo3D 89.9999999 10 1)) = 90" .
  then show ?thesis by simp
qed

text \<open>
  C4 (amended): for every latitude \<open>lat\<close> in \<open>[-90, 90]\<close> and longitude \<open>lng\<close> in
  \<open>(-180, 180]\<close>, \<open>cartesianToSpherical(geoTo3D(lat, lng))\<close> returns the longitude within
  \<open>1e-9\<close> of \<open>lng\<close> and the latitude within \<open>1e-5\<close> of \<open>lat\<close>; the latitude is within
  \<open>1e-9\<close> of \<open>lat\<close> when \<open>lat\<close> is in \<open>[-89, 89]\<close>.
\<close>

theorem roundtrip_within_tolerance:
  "(- 90 \<le> lat \<and> lat \<le> 90 \<and> - 180 < lng \<and> lng \<le> 180 \<longrightarrow>
      \<bar>ux (cartesianToSpherical (geoTo3D lat lng 1)) - lat\<bar> \<le> 1 / 10 ^ 5 \<and>
      \<bar>uy (cartesianToSpherical (geoTo3D lat lng 1)) - lng\<bar> \<le> 1 / 10 ^ 9) \<and>
   (- 89 \<le> lat \<and> lat \<le> 89 \<and> - 180 < lng \<and> lng \<le> 180 \<longrightarrow>
      \<bar>ux (cartesianToSpherical (geoTo3D lat lng 1)) - lat\<bar> \<le> 1 / 10 ^ 9)"
proof (intro conjI impI)
  assume a: "- 90 \<le> lat \<and> lat \<le> 90 \<and> - 180 < lng \<and> lng \<le> 180"
  then show "\<bar>ux (cartesianToSpherical (geoTo3D lat lng 1)) - lat\<bar> \<le> 1 / 10 ^ 5"
    by (intro roundtrip_latitude(1)) simp_all
  have "uy (cartesianToSpherical (geoTo3D lat lng 1)) = lng"
    using a by (intro roundtrip_longitude) simp_all
  then show "\<bar>uy (cartesianToSpherical (geoTo3D lat lng 1)) - lng\<bar> \<le> 1 / 10 ^ 9"
    by simp
next
  assume a: "- 89 \<le> lat \<and> lat \<le> 89 \<and> - 180 < lng \<and> lng \<le> 180"
  then have "- 90 \<le> lat" "lat \<le> 90" "\<bar>lat\<bar> \<le> 89" by linarith+
  then show "\<bar>ux (cartesianToSpherical (geoTo3D lat lng 1)) - lat\<bar> \<le> 1 / 10 ^ 9"
    by (rule roundtrip_latitude(2))
qed

theorem roundtrip_within_tolerance_witness:
  "- 90 \<le> (90::real) \<and> (90::real) \<le> 90 \<and> - 180 < (45::real) \<and> (45::real) \<le> 180 \<and>
   \<bar>ux (cartesianToSpherical (geoTo3D 90 45 1)) - 90\<bar> \<le> 1 / 10 ^ 5 \<and>
   \<bar>uy (cartesianToSpherical (geoTo3D 90 45 1)) - 45\<bar> \<le> 1 / 10 ^ 9 \<and>
   - 89 \<le> (45::real) \<and> (45::real) \<le> 89 \<and> - 180 < (10::real) \<and> (10::real) \<le> 180 \<and>
   \<bar>ux (cartesianToSpherical (geoTo3D 45 10 1)) - 45\<bar> \<le> 1 / 10 ^ 9"
  using roundtrip_within_tolerance [of 90 45] roundtrip_within_tolerance [of 45 10]
  by simp

subsection \<open>The midpoint of antipodal points\<close>






lemma Math_PI_residues:
  shows "sin Math_PI < 1 / 10 ^ 15" and "cos (Math_PI / 2) < 1 / 10 ^ 15"
proof -
  have d: "0 \<le> pi - Math_PI" "pi - Math_PI < 1 / 10 ^ 15"
    using Math_PI_less_pi pi_less_Math_PI_plus by linarith+
  have "sin Math_PI = sin (pi - Math_PI)" by simp
  also have "\<dots> \<le> pi - Math_PI" using d(1) by (rule sin_x_le_x)
  finally show "sin Math_PI < 1 / 10 ^ 15" using d(2) by linarith
  have "cos (Math_PI / 2) = sin (pi / 2 - Math_PI / 2)"
    by (subst sin_diff) simp
  also have "\<dots> \<le> pi / 2 - Math_PI / 2"
    using d(1) by (intro sin_x_le_x) simp
  also have "\<dots> < 1 / 10 ^ 15" using d by simp
  finally show "cos (Math_PI / 2) < 1 / 10 ^ 15" .
qed











subsection \<open>\<open>normalize()\<close> on a caller's vector\<close>

lemma sqrt_25: "sqrt 25 = 5"
  by (rule real_sqrt_unique) simp_all

lemma sqrt_100: "sqrt 100 = 10"
  by (rule real_sqrt_unique) simp_all

lemma normalize_3_0_4:
  "Vector3_normalize \<lparr>vx = 3, vy = 0, vz = 4\<rparr> = \<lparr>vx = 3 / 5, vy = 0, vz = 4 / 5\<rparr>"
  by (simp add: Vector3_normalize_def Vector3_normalizeFromLength_def Vector3_length_def
      Vector3_scale_def sqrt_25)

lemma normalize_0_0_10:
  "Vector3_normalize \<lparr>vx = 0, vy = 0, vz = 10\<rparr> = \<lparr>vx = 0, vy = 0, vz = 1\<rparr>"
  by (simp add: Vector3_normalize_def Vector3_normalizeFromLength_def Vector3_length_def
      Vector3_scale_def sqrt_100)

text \<open>
  C7 (the code at the failing input): \<open>cartesianToAzAlt\<close> called on the vector
  \<open>(3, 0, 4)\<close> leaves that vector as \<open>(0.6, 0, 0.8)\<close>: the function is not pure in its
  argument.
\<close>

theorem cartesianToAzAlt_overwrites_argument:
  "snd (cartesianToAzAlt 0 (\<lambda>_. \<lparr>vx = 3, vy = 0, vz = 4\<rparr>)) 0 = \<lparr>vx = 3 / 5, vy = 0, vz = 4 / 5\<rparr>"
  by (simp add: cartesianToAzAlt_def Let_def normalize_at_def normalize_3_0_4)

subsection \<open>The bridge round trips\<close>

lemma roundTiesToEven_of_int: "roundTiesToEven (of_int n) = n"
  by (simp add: roundTiesToEven_def)

lemma roundTiesToEven_numeral: "roundTiesToEven (numeral n) = numeral n"
  using roundTiesToEven_of_int [of "numeral n"] by simp

lemma Math_fround_1: "Math_fround 1 = 1"
  unfolding Math_fround_def Let_def
  by (simp add: powr_minus_divide roundTiesToEven_numeral)

lemma floor_log2_16777217: "\<lfloor>log 2 16777217\<rfloor> = 24"
  by (subst floor_log_eq_powr_iff) simp_all

lemma roundTiesToEven_half: "roundTiesToEven (16777217 / 2) = 8388608"
proof -
  have "\<lfloor>16777217 / 2 :: real\<rfloor> = 8388608" by linarith
  then show ?thesis by (simp add: roundTiesToEven_def Let_def)
qed

text \<open>\<open>2^24 + 1\<close> is a double and lies half way between two neighbouring float32 values.\<close>

lemma Math_fround_16777217: "Math_fround 16777217 = 16777216"
  unfolding Math_fround_def Let_def
  by (simp add: floor_log2_16777217 roundTiesToEven_half)

lemma is_float32_0: "is_float32 0"
  by (simp add: is_float32_def Math_fround_def FLT_MAX_def)

lemma is_float32_1: "is_float32 1"
  by (simp add: is_float32_def Math_fround_1 FLT_MAX_def)

lemma fields_roundtrip:
  "WWTMatrix3d_fields (babylonMatrixToWWT (wwtMatrixToBabylon a)) =
   map Math_fround (WWTMatrix3d_fields a)"
  by (simp add: WWTMatrix3d_fields_def babylonMatrixToWWT_def wwtMatrixToBabylon_def
      Matrix_FromValues_def Let_def)

lemma fields_inject: "WWTMatrix3d_fields a = WWTMatrix3d_fields b \<Longrightarrow> a = b"
  by (cases a, cases b) (simp add: WWTMatrix3d_fields_def)

text \<open>
  C3 (as stated, refuted): the legacy matrix whose field \<open>_m11\<close> is \<open>16777217\<close> does not
  come back from \<open>babylonMatrixToWWT(wwtMatrixToBabylon(m))\<close>: the \<open>Float32Array\<close> of
  the Babylon matrix holds \<open>16777216\<close> in its place.
\<close>

theorem matrix_roundtrip_loses_precision:
  "babylonMatrixToWWT (wwtMatrixToBabylon (legacy_identity\<lparr>m11 := 16777217\<rparr>))
     \<noteq> legacy_identity\<lparr>m11 := 16777217\<rparr>"
  by (simp add: legacy_identity_def babylonMatrixToWWT_def wwtMatrixToBabylon_def
      Matrix_FromValues_def Let_def Math_fround_16777217)

text \<open>
  C3 (amended): for every vector \<open>v\<close>, \<open>babylonToWWT(wwtToBabylon(v))\<close> equals \<open>v\<close> in
  \<open>x\<close>, \<open>y\<close>, \<open>z\<close>. For every legacy matrix \<open>m\<close> with fields in the float32 range,
  \<open>babylonMatrixToWWT(wwtMatrixToBabylon(m))\<close> holds in each of its 16 fields the same
  field of \<open>m\<close>, narrowed to float32: no field is moved to another place. It equals \<open>m\<close>
  exactly when every field of \<open>m\<close> is a float32 value.
\<close>

theorem bridge_roundtrip:
  "babylonToWWT (wwtToBabylon v) = v \<and>
   (list_all (\<lambda>f. \<bar>f\<bar> \<le> FLT_MAX) (WWTMatrix3d_fields a) \<longrightarrow>
      WWTMatrix3d_fields (babylonMatrixToWWT (wwtMatrixToBabylon a)) =
      map Math_fround (WWTMatrix3d_fields a)) \<and>
   (list_all is_float32 (WWTMatrix3d_fields a) \<longrightarrow>
      babylonMatrixToWWT (wwtMatrixToBabylon a) = a)"
proof (intro conjI impI)
  show "babylonToWWT (wwtToBabylon v) = v"
    by (simp add: babylonToWWT_def wwtToBabylon_def)
  show "WWTMatrix3d_fields (babylonMatrixToWWT (wwtMatrixToBabylon a)) =
      map Math_fround (WWTMatrix3d_fields a)"
    by (rule fields_roundtrip)
  assume "list_all is_float32 (WWTMatrix3d_fields a)"
  then have "map Math_fround (WWTMatrix3d_fields a) = WWTMatrix3d_fields a"
    by (simp add: list_all_iff is_float32_def map_idI)
  then show "babylonMatrixToWWT (wwtMatrixToBabylon a) = a"
    by (intro fields_inject) (simp add: fields_roundtrip)
qed

theorem bridge_roundtrip_witness:
  "list_all (\<lambda>f. \<bar>f\<bar> \<le> FLT_MAX) (WWTMatrix3d_fields legacy_identity) \<and>
   list_all is_float32 (WWTMatrix3d_fields legacy_identity) \<and>
   WWTMatrix3d_fields (babylonMatrixToWWT (wwtMatrixToBabylon legacy_identity)) =
      map Math_fround (WWTMatrix3d_fields legacy_identity) \<and>
   babylonMatrixToWWT (wwtMatrixToBabylon legacy_identity) = legacy_identity \<and>
   babylonToWWT (wwtToBabylon \<lparr>wx = 1, wy = 2, wz = 3\<rparr>) = \<lparr>wx = 1, wy = 2, wz = 3\<rparr>"
proof -
  have h1: "list_all (\<lambda>f. \<bar>f\<bar> \<le> FLT_MAX) (WWTMatrix3d_fields legacy_identity)"
    by (simp add: legacy_identity_def WWTMatrix3d_fields_def FLT_MAX_def)
  have h2: "list_all is_float32 (WWTMatrix3d_fields legacy_identity)"
    by (simp add: legacy_identity_def WWTMatrix3d_fields_def is_float32_0 is_float32_1)
  from bridge_roundtrip [of "\<lparr>wx = 1, wy = 2, wz = 3\<rparr>" legacy_identity] h1 h2
  show ?thesis by blast
qed

subsection \<open>One \<open>update()\<close> of the animator\<close>

lemma first_update_eq:
  "first_update cfg w =
     CameraAnimator_update
       (CameraAnimator_new cfg
          \<lparr>startTime := clock w (ticks w), currentTime := 0, isAnimating := True\<rparr>)
       (w\<lparr>ticks := Suc (ticks w)\<rparr>)"
  by (simp add: first_update_def CameraAnimator_start_def performance_now_def)

lemma config_new [simp]: "config (CameraAnimator_new cfg) = cfg"
  by (simp add: CameraAnimator_new_def)

lemma update_idle: "\<not> isAnimating a \<Longrightarrow> CameraAnimator_update a w = (None, a, w)"
  by (simp add: CameraAnimator_update_def)

text \<open>The vectors after an \<open>update()\<close> of a running animator, whatever the progress.\<close>

lemma update_vectors:
  "isAnimating a \<Longrightarrow>
   vectors (snd (snd (CameraAnimator_update a w))) =
     normalizeTargets (config a) (normalizePositions (config a) (vectors w))"
  by (simp add: CameraAnimator_update_def performance_now_def Let_def split: option.split)

text \<open>A progress of 1 or more: the result names the end position and end target
  objects of the configuration, and the animator stops.\<close>

lemma update_final:
  assumes "isAnimating a"
    and "finite_value (Math_min1 (js_divide (clock w (ticks w) - startTime a)
           (duration (config a)))) = Some p"
    and "1 \<le> p"
  shows "fst (CameraAnimator_update a w) =
           Some \<lparr>position = Obj (endPosition (config a)),
                 target = map_option Obj (endTarget (config a))\<rparr>"
    and "\<not> isAnimating (fst (snd (CameraAnimator_update a w)))"
  using assms by (simp_all add: CameraAnimator_update_def performance_now_def Let_def)

lemma update_running:
  assumes "isAnimating a"
    and "finite_value (Math_min1 (js_divide (clock w (ticks w) - startTime a)
           (duration (config a)))) = Some p"
    and "p < 1"
  shows "isAnimating (fst (snd (CameraAnimator_update a w)))"
    and "\<exists>v t. fst (CameraAnimator_update a w) = Some \<lparr>position = New v, target = t\<rparr>"
  using assms by (simp_all add: CameraAnimator_update_def performance_now_def Let_def)

text \<open>A progress that is not finite, or is below 1: the animator goes on.\<close>

lemma update_not_final:
  assumes "isAnimating a"
    and "\<And>p. finite_value (Math_min1 (js_divide (clock w (ticks w) - startTime a)
           (duration (config a)))) = Some p \<Longrightarrow> p < 1"
  shows "isAnimating (fst (snd (CameraAnimator_update a w)))"
proof (cases "finite_value (Math_min1 (js_divide (clock w (ticks w) - startTime a)
    (duration (config a))))")
  case None
  with assms(1) show ?thesis
    by (simp add: CameraAnimator_update_def performance_now_def Let_def)
next
  case (Some p)
  with assms(2) have "\<not> 1 \<le> p" by fastforce
  with Some assms(1) show ?thesis
    by (simp add: CameraAnimator_update_def performance_now_def Let_def)
qed

lemma update_Some: "isAnimating a \<Longrightarrow> fst (CameraAnimator_update a w) \<noteq> None"
  by (simp add: CameraAnimator_update_def performance_now_def Let_def split: option.split)

lemma DBL_OVERFLOW_gt_1: "1 < DBL_OVERFLOW"
  by (simp add: DBL_OVERFLOW_def)

lemma DBL_OVERFLOW_pos: "0 < DBL_OVERFLOW"
  using DBL_OVERFLOW_gt_1 by simp

text \<open>A quotient between \<open>-1\<close> and 1 that is not \<open>-0\<close>.\<close>

lemma js_divide_small:
  assumes "b \<noteq> 0" and "\<bar>a / b\<bar> \<le> 1" and "0 < a \<or> 0 < b"
  shows "js_divide a (Num b) = Num (a / b)"
proof -
  have "\<not> DBL_OVERFLOW \<le> a / b" "\<not> a / b \<le> - DBL_OVERFLOW"
    using assms(2) DBL_OVERFLOW_gt_1 by linarith+
  with assms(1,3) show ?thesis by auto
qed

text \<open>Without spherical interpolation \<open>update()\<close> writes no vector.\<close>

lemma update_linear_keeps_vectors:
  "\<not> useSphericalInterpolation (config a) \<Longrightarrow>
   vectors (snd (snd (CameraAnimator_update a w))) = vectors w"
  by (cases "isAnimating a")
     (simp_all add: update_vectors update_idle normalizeTargets_def normalizePositions_def
       split: option.split)

text \<open>In the linear mode the returned end position has the components it had before
  the call.\<close>

lemma update_final_linear:
  assumes "\<not> useSphericalInterpolation (config a)"
  shows "components (vectors (snd (snd (CameraAnimator_update a w)))) (Obj (endPosition (config a)))
           = Some (vectors w (endPosition (config a)))"
  using assms by (simp add: update_linear_keeps_vectors)

text \<open>
  C1 (the code at the failing input): a spherical move to the end position \<open>(3, 0, 4)\<close>
  of duration 1000 is started at time 0 and updated at time 1000. The call observes
  progress 1, stops the animator and returns the end position object of the
  configuration, whose components are by then \<open>(0.6, 0, 0.8)\<close>, not the \<open>(3, 0, 4)\<close> of
  construction time.
\<close>

theorem update_final_returns_normalized_end:
  "fst (first_update (example_move True 1000) (example_world 1000)) =
     Some \<lparr>position = Obj 1, target = None\<rparr> \<and>
   \<not> isAnimating (fst (snd (first_update (example_move True 1000) (example_world 1000)))) \<and>
   components (vectors (snd (snd (first_update (example_move True 1000) (example_world 1000)))))
     (Obj 1) = Some \<lparr>vx = 3 / 5, vy = 0, vz = 4 / 5\<rparr> \<and>
   vectors (example_world 1000) (endPosition (example_move True 1000)) = \<lparr>vx = 3, vy = 0, vz = 4\<rparr>"
proof -
  let ?a = "CameraAnimator_new (example_move True 1000)
              \<lparr>startTime := clock (example_world 1000) (ticks (example_world 1000)),
               currentTime := 0, isAnimating := True\<rparr>"
  let ?w = "example_world 1000\<lparr>ticks := Suc (ticks (example_world 1000))\<rparr>"
  have run: "isAnimating ?a" by simp
  have p: "finite_value (Math_min1 (js_divide (clock ?w (ticks ?w) - startTime ?a)
      (duration (config ?a)))) = Some 1"
    by (simp add: example_world_def example_move_def js_divide_small)
  have "fst (CameraAnimator_update ?a ?w) =
          Some \<lparr>position = Obj (endPosition (config ?a)),
                target = map_option Obj (endTarget (config ?a))\<rparr>"
    by (rule update_final(1) [OF run p]) simp
  moreover have "\<not> isAnimating (fst (snd (CameraAnimator_update ?a ?w)))"
    by (rule update_final(2) [OF run p]) simp
  moreover have "vectors (snd (snd (CameraAnimator_update ?a ?w))) 1 =
      \<lparr>vx = 3 / 5, vy = 0, vz = 4 / 5\<rparr>"
    by (simp add: update_vectors example_move_def
      example_world_def example_vectors_def normalizeTargets_def normalizePositions_def
      normalize_at_def normalize_3_0_4 normalize_0_0_10)
  ultimately show ?thesis
    by (simp add: first_update_eq) (simp add: example_move_def example_world_def example_vectors_def)
qed

text \<open>
  C2 (the code at the failing input): a spherical move from \<open>(0, 0, 10)\<close> to
  \<open>(3, 0, 4)\<close> of duration 1000 is started at time 0 and updated at time 500. After
  the call the start position of the configuration is \<open>(0, 0, 1)\<close> and its end position
  \<open>(0.6, 0, 0.8)\<close>: \<open>update()\<close> has overwritten both.
\<close>

theorem update_normalizes_configured_vectors:
  "vectors (snd (snd (first_update (example_move True 1000) (example_world 500)))) 0 =
     \<lparr>vx = 0, vy = 0, vz = 1\<rparr> \<and>
   vectors (snd (snd (first_update (example_move True 1000) (example_world 500)))) 1 =
     \<lparr>vx = 3 / 5, vy = 0, vz = 4 / 5\<rparr> \<and>
   vectors (example_world 500) (startPosition (example_move True 1000)) =
     \<lparr>vx = 0, vy = 0, vz = 10\<rparr> \<and>
   vectors (example_world 500) (endPosition (example_move True 1000)) =
     \<lparr>vx = 3, vy = 0, vz = 4\<rparr>"
  by (simp add: update_vectors first_update_eq example_move_def
      example_world_def example_vectors_def normalizeTargets_def normalizePositions_def
      normalize_at_def normalize_3_0_4 normalize_0_0_10)

text \<open>
  C6 (as stated, refuted): with the duration \<open>-1000\<close>, started at time 0 and updated at
  time 5, the animator is still running after its first \<open>update()\<close>; and so it is with
  the duration 0 when the clock reads the same time at \<open>start()\<close> and at \<open>update()\<close>
  (the progress is \<open>0 / 0\<close>).
\<close>

theorem nonpositive_duration_keeps_running:
  "isAnimating (fst (snd (first_update (example_move False (- 1000)) (example_world 5)))) \<and>
   isAnimating (fst (snd (first_update (example_move False 0) (example_world 0))))"
proof -
  have "js_divide 5 (Num (- 1000)) = Num (5 / (- 1000))"
    by (rule js_divide_small) simp_all
  then show ?thesis
    by (simp add: first_update_eq CameraAnimator_update_def performance_now_def Let_def
        example_move_def example_world_def)
qed

text \<open>
  C6 (amended): for every animator constructed with the duration \<open>+0\<close> and then
  started, the first \<open>update()\<close> whose clock reading is later than that of \<open>start()\<close>
  completes the animation: it returns the end position and end target objects and
  leaves the animator not running. With a negative duration, or with the duration
  \<open>-0\<close>, and a clock that does not go back, the first \<open>update()\<close> returns a frame and
  leaves the animator running.
\<close>

theorem zero_duration_completes:
  "(duration cfg = Num 0 \<and> clock w (ticks w) < clock w (Suc (ticks w)) \<longrightarrow>
      fst (first_update cfg w) =
        Some \<lparr>position = Obj (endPosition cfg), target = map_option Obj (endTarget cfg)\<rparr> \<and>
      \<not> isAnimating (fst (snd (first_update cfg w)))) \<and>
   (duration cfg = Num d \<and> d < 0 \<and> clock w (ticks w) \<le> clock w (Suc (ticks w)) \<longrightarrow>
      fst (first_update cfg w) \<noteq> None \<and> isAnimating (fst (snd (first_update cfg w)))) \<and>
   (duration cfg = NegZero \<and> clock w (ticks w) \<le> clock w (Suc (ticks w)) \<longrightarrow>
      fst (first_update cfg w) \<noteq> None \<and> isAnimating (fst (snd (first_update cfg w))))"
proof -
  let ?a = "CameraAnimator_new cfg
              \<lparr>startTime := clock w (ticks w), currentTime := 0, isAnimating := True\<rparr>"
  let ?w = "w\<lparr>ticks := Suc (ticks w)\<rparr>"
  let ?e = "clock w (Suc (ticks w)) - clock w (ticks w)"
  let ?progress = "Math_min1 (js_divide (clock ?w (ticks ?w) - startTime ?a)
      (duration (config ?a)))"
  have run: "isAnimating ?a" by simp
  have some: "fst (first_update cfg w) \<noteq> None"
    using update_Some [OF run] by (simp add: first_update_eq)
  have zero: "fst (first_update cfg w) =
        Some \<lparr>position = Obj (endPosition cfg), target = map_option Obj (endTarget cfg)\<rparr> \<and>
      \<not> isAnimating (fst (snd (first_update cfg w)))"
    if "duration cfg = Num 0" and "clock w (ticks w) < clock w (Suc (ticks w))"
  proof -
    from that have p: "finite_value ?progress = Some 1" by simp
    show ?thesis
      using update_final [OF run p] by (simp add: first_update_eq)
  qed
  have negative: "isAnimating (fst (snd (first_update cfg w)))"
    if "duration cfg = Num d" and "d < 0" and "clock w (ticks w) \<le> clock w (Suc (ticks w))"
  proof -
    from that have q: "?e / d \<le> 0"
      by (simp add: divide_le_0_iff)
    have "isAnimating (fst (snd (CameraAnimator_update ?a ?w)))"
    proof (rule update_not_final [OF run])
      fix p
      assume "finite_value ?progress = Some p"
      with \<open>duration cfg = Num d\<close> \<open>d < 0\<close> q DBL_OVERFLOW_pos show "p < 1"
        by (auto split: if_splits)
    qed
    then show ?thesis by (simp add: first_update_eq)
  qed
  have negzero: "isAnimating (fst (snd (first_update cfg w)))"
    if "duration cfg = NegZero" and "clock w (ticks w) \<le> clock w (Suc (ticks w))"
  proof -
    have "isAnimating (fst (snd (CameraAnimator_update ?a ?w)))"
    proof (rule update_not_final [OF run])
      fix p
      assume "finite_value ?progress = Some p"
      with that show "p < 1"
        by (auto split: if_splits)
    qed
    then show ?thesis by (simp add: first_update_eq)
  qed
  from some zero negative negzero show ?thesis by blast
qed

theorem zero_duration_completes_witness:
  "duration (example_move False 0) = Num 0 \<and>
   clock (example_world 16) (ticks (example_world 16)) <
     clock (example_world 16) (Suc (ticks (example_world 16))) \<and>
   fst (first_update (example_move False 0) (example_world 16)) =
     Some \<lparr>position = Obj 1, target = None\<rparr> \<and>
   \<not> isAnimating (fst (snd (first_update (example_move False 0) (example_world 16)))) \<and>
   duration (example_move False (- 1000)) = Num (- 1000) \<and> (- 1000 :: real) < 0 \<and>
   clock (example_world 16) (ticks (example_world 16)) \<le>
     clock (example_world 16) (Suc (ticks (example_world 16))) \<and>
   fst (first_update (example_move False (- 1000)) (example_world 16)) \<noteq> None \<and>
   isAnimating (fst (snd (first_update (example_move False (- 1000)) (example_world 16)))) \<and>
   duration (example_move False 0\<lparr>duration := NegZero\<rparr>) = NegZero \<and>
   fst (first_update (example_move False 0\<lparr>duration := NegZero\<rparr>) (example_world 16)) \<noteq> None \<and>
   isAnimating (fst (snd (first_update (example_move False 0\<lparr>duration := NegZero\<rparr>)
     (example_world 16))))"
proof -
  have z: "duration (example_move False 0) = Num 0" "endPosition (example_move False 0) = 1"
    "endTarget (example_move False 0) = None"
    by (simp_all add: example_move_def)
  have n: "duration (example_move False (- 1000)) = Num (- 1000)"
    by (simp add: example_move_def)
  have m: "duration (example_move False 0\<lparr>duration := NegZero\<rparr>) = NegZero"
    by simp
  have c: "clock (example_world 16) (ticks (example_world 16)) <
      clock (example_world 16) (Suc (ticks (example_world 16)))"
    by (simp add: example_world_def)
  from zero_duration_completes [of "example_move False 0" "example_world 16" 0]
       zero_duration_completes [of "example_move False (- 1000)" "example_world 16" "- 1000"]
       zero_duration_completes [of "example_move False 0\<lparr>duration := NegZero\<rparr>"
         "example_world 16" 0]
       z n m c
  show ?thesis by simp
qed

subsection \<open>The chain\<close>

lemma update_at_idle: "\<not> isAnimating (animators w r) \<Longrightarrow> update_at r w = (None, w)"
  by (simp add: update_at_def update_idle)

lemma update_at_Some: "isAnimating (animators w r) \<Longrightarrow> fst (update_at r w) \<noteq> None"
  using update_Some [of "animators w r" w]
  by (simp add: update_at_def split_beta)

lemma update_at_None:
  assumes "fst (update_at r w) = None"
  shows "\<not> isAnimating (animators w r)" and "snd (update_at r w) = w"
proof -
  show idle: "\<not> isAnimating (animators w r)"
    using assms update_at_Some by blast
  then show "snd (update_at r w) = w"
    by (simp add: update_at_idle)
qed

lemma start_at_animating: "isAnimating (animators (start_at r w) r)"
  by (simp add: start_at_def CameraAnimator_start_def performance_now_def)

text \<open>The call that does not advance the cursor.\<close>

lemma chain_update_stay:
  assumes "currentIndex c < length (animations c)"
    and "\<not> (fst (update_at (animations c ! currentIndex c) w) = None \<and>
             Suc (currentIndex c) < length (animations c))"
  shows "CameraAnimationChain_update c w =
           (fst (update_at (animations c ! currentIndex c) w), c,
            snd (update_at (animations c ! currentIndex c) w))"
  using assms by (subst CameraAnimationChain_update.simps) (auto simp: Let_def)

text \<open>The call that advances it: the animator just started answers the inner call.\<close>

lemma chain_update_advance:
  assumes "Suc (currentIndex c) < length (animations c)"
    and "fst (update_at (animations c ! currentIndex c) w) = None"
  shows "CameraAnimationChain_update c w =
           (fst (update_at (animations c ! Suc (currentIndex c))
                   (start_at (animations c ! Suc (currentIndex c)) w)),
            c\<lparr>currentIndex := Suc (currentIndex c)\<rparr>,
            snd (update_at (animations c ! Suc (currentIndex c))
                   (start_at (animations c ! Suc (currentIndex c)) w)))"
    and "fst (CameraAnimationChain_update c w) \<noteq> None"
proof -
  let ?n = "animations c ! Suc (currentIndex c)"
  let ?c1 = "c\<lparr>currentIndex := Suc (currentIndex c)\<rparr>"
  have same: "snd (update_at (animations c ! currentIndex c) w) = w"
    using assms(2) by (rule update_at_None(2))
  have step: "CameraAnimationChain_update c w = CameraAnimationChain_update ?c1 (start_at ?n w)"
    using assms same by (subst CameraAnimationChain_update.simps) (simp add: Let_def)
  have some: "fst (update_at ?n (start_at ?n w)) \<noteq> None"
    by (rule update_at_Some) (rule start_at_animating)
  have "CameraAnimationChain_update ?c1 (start_at ?n w) =
          (fst (update_at (animations ?c1 ! currentIndex ?c1) (start_at ?n w)), ?c1,
           snd (update_at (animations ?c1 ! currentIndex ?c1) (start_at ?n w)))"
    by (rule chain_update_stay) (use assms(1) some in simp_all)
  with step show "CameraAnimationChain_update c w =
           (fst (update_at ?n (start_at ?n w)), ?c1, snd (update_at ?n (start_at ?n w)))"
    by simp
  with some show "fst (CameraAnimationChain_update c w) \<noteq> None"
    by simp
qed

text \<open>The cursor of a chain that is not empty stays inside the sequence.\<close>

lemma chain_start_cursor:
  "animations c \<noteq> [] \<Longrightarrow>
   currentIndex (fst (CameraAnimationChain_start c w)) <
     length (animations (fst (CameraAnimationChain_start c w)))"
  by (simp add: CameraAnimationChain_start_def)

lemma chain_update_cursor:
  assumes "currentIndex c < length (animations c)"
  shows "currentIndex (fst (snd (CameraAnimationChain_update c w))) <
           length (animations (fst (snd (CameraAnimationChain_update c w))))"
proof (cases "fst (update_at (animations c ! currentIndex c) w) = None \<and>
    Suc (currentIndex c) < length (animations c)")
  case True
  then show ?thesis by (simp add: chain_update_advance(1))
next
  case False
  with assms show ?thesis by (simp add: chain_update_stay)
qed

text \<open>
  C8: let the cursor of a chain be inside its sequence (as it is once a chain that is
  not empty has been started). When \<open>update()\<close> is called while the animator at the
  cursor is no longer running and is not the last one, the call moves the cursor to
  the next animator, starts it, and returns what that animator's \<open>update()\<close> returns
  right after its \<open>start()\<close>, which is a frame and not null. And when \<open>update()\<close> of the
  chain returns null, the cursor is at the last animator, that animator is not
  running, and the call has changed nothing.
\<close>

theorem chain_update_advances_without_losing_a_frame:
  assumes "currentIndex c < length (animations c)"
  shows "(Suc (currentIndex c) < length (animations c) \<and>
          \<not> isAnimating (animators w (animations c ! currentIndex c)) \<longrightarrow>
            CameraAnimationChain_update c w =
              (fst (update_at (animations c ! Suc (currentIndex c))
                      (start_at (animations c ! Suc (currentIndex c)) w)),
               c\<lparr>currentIndex := Suc (currentIndex c)\<rparr>,
               snd (update_at (animations c ! Suc (currentIndex c))
                      (start_at (animations c ! Suc (currentIndex c)) w))) \<and>
            fst (CameraAnimationChain_update c w) \<noteq> None) \<and>
         (fst (CameraAnimationChain_update c w) = None \<longrightarrow>
            CameraAnimationChain_update c w = (None, c, w) \<and>
            Suc (currentIndex c) = length (animations c) \<and>
            \<not> isAnimating (animators w (animations c ! currentIndex c)))"
proof (intro conjI impI)
  assume h: "Suc (currentIndex c) < length (animations c) \<and>
          \<not> isAnimating (animators w (animations c ! currentIndex c))"
  then have none: "fst (update_at (animations c ! currentIndex c) w) = None"
    by (simp add: update_at_idle)
  from h none show "CameraAnimationChain_update c w =
              (fst (update_at (animations c ! Suc (currentIndex c))
                      (start_at (animations c ! Suc (currentIndex c)) w)),
               c\<lparr>currentIndex := Suc (currentIndex c)\<rparr>,
               snd (update_at (animations c ! Suc (currentIndex c))
                      (start_at (animations c ! Suc (currentIndex c)) w)))"
    by (intro chain_update_advance(1)) simp_all
  from h none show "fst (CameraAnimationChain_update c w) \<noteq> None"
    by (intro chain_update_advance(2)) simp_all
next
  assume r: "fst (CameraAnimationChain_update c w) = None"
  let ?cur = "animations c ! currentIndex c"
  have stay: "\<not> (fst (update_at ?cur w) = None \<and> Suc (currentIndex c) < length (animations c))"
    using chain_update_advance(2) [of c w] r by blast
  then have eq: "CameraAnimationChain_update c w =
      (fst (update_at ?cur w), c, snd (update_at ?cur w))"
    using assms by (intro chain_update_stay) simp_all
  with r have none: "fst (update_at ?cur w) = None" by simp
  with stay assms show "Suc (currentIndex c) = length (animations c)" by simp
  from none show "\<not> isAnimating (animators w ?cur)" by (rule update_at_None(1))
  from none eq show "CameraAnimationChain_update c w = (None, c, w)"
    by (simp add: update_at_None(2))
qed

theorem chain_update_advances_without_losing_a_frame_witness:
  "currentIndex (example_chain 0) < length (animations (example_chain 0)) \<and>
   Suc (currentIndex (example_chain 0)) < length (animations (example_chain 0)) \<and>
   \<not> isAnimating (animators (example_world 16)
       (animations (example_chain 0) ! currentIndex (example_chain 0))) \<and>
   fst (CameraAnimationChain_update (example_chain 0) (example_world 16)) \<noteq> None \<and>
   currentIndex (fst (snd (CameraAnimationChain_update (example_chain 0) (example_world 16)))) = 1 \<and>
   currentIndex (example_chain 1) < length (animations (example_chain 1)) \<and>
   fst (CameraAnimationChain_update (example_chain 1) (example_world 16)) = None \<and>
   Suc (currentIndex (example_chain 1)) = length (animations (example_chain 1)) \<and>
   CameraAnimationChain_update (example_chain 1) (example_world 16) =
     (None, example_chain 1, example_world 16)"
proof -
  have i0: "currentIndex (example_chain 0) < length (animations (example_chain 0))"
    and s0: "Suc (currentIndex (example_chain 0)) < length (animations (example_chain 0))"
    and i1: "currentIndex (example_chain 1) < length (animations (example_chain 1))"
    by (simp_all add: example_chain_def)
  have idle: "\<not> isAnimating (animators (example_world 16) r)" for r
    by (simp add: example_world_def CameraAnimator_new_def)
  have none: "fst (CameraAnimationChain_update (example_chain 1) (example_world 16)) = None"
    using i1 by (subst chain_update_stay) (simp_all add: update_at_idle idle example_chain_def)
  from chain_update_advances_without_losing_a_frame [OF i0, of "example_world 16"] s0 idle
  have adv: "CameraAnimationChain_update (example_chain 0) (example_world 16) =
      (fst (update_at (animations (example_chain 0) ! Suc (currentIndex (example_chain 0)))
              (start_at (animations (example_chain 0) ! Suc (currentIndex (example_chain 0)))
                 (example_world 16))),
       example_chain 0\<lparr>currentIndex := Suc (currentIndex (example_chain 0))\<rparr>,
       snd (update_at (animations (example_chain 0) ! Suc (currentIndex (example_chain 0)))
              (start_at (animations (example_chain 0) ! Suc (currentIndex (example_chain 0)))
                 (example_world 16))))"
    and some: "fst (CameraAnimationChain_update (example_chain 0) (example_world 16)) \<noteq> None"
    by blast+
  have cursor: "currentIndex (fst (snd (CameraAnimationChain_update (example_chain 0)
      (example_world 16)))) = 1"
    by (subst adv) (simp add: example_chain_def)
  from chain_update_advances_without_losing_a_frame [OF i1, of "example_world 16"] none
  have last: "CameraAnimationChain_update (example_chain 1) (example_world 16) =
      (None, example_chain 1, example_world 16)"
    and len: "Suc (currentIndex (example_chain 1)) = length (animations (example_chain 1))"
    by blast+
  from i0 s0 idle some cursor i1 none len last show ?thesis
    by (intro conjI) blast+
qed

subsection \<open>The length of \<open>slerp\<close>\<close>

lemma Dot_self_nonneg: "0 \<le> Vector3_Dot v v"
  by (simp add: Vector3_Dot_def)

lemma length_eq_sqrt_Dot: "Vector3_length v = sqrt (Vector3_Dot v v)"
  by (simp add: Vector3_length_def Vector3_Dot_def)

lemma length_1_iff: "Vector3_length v = 1 \<longleftrightarrow> Vector3_Dot v v = 1"
  by (simp add: length_eq_sqrt_Dot)

lemma length_0_iff: "Vector3_length v = 0 \<longleftrightarrow> Vector3_Dot v v = 0"
  by (simp add: length_eq_sqrt_Dot)

lemma Dot_scale_scale:
  "Vector3_Dot (Vector3_scale a s) (Vector3_scale b r) = s * r * Vector3_Dot a b"
  by (simp add: Vector3_Dot_def Vector3_scale_def algebra_simps)

lemma Dot_scale_right: "Vector3_Dot a (Vector3_scale b r) = r * Vector3_Dot a b"
  by (simp add: Vector3_Dot_def Vector3_scale_def algebra_simps)

lemma Dot_add_add:
  "Vector3_Dot (Vector3_add a b) (Vector3_add a b) =
     Vector3_Dot a a + 2 * Vector3_Dot a b + Vector3_Dot b b"
  by (simp add: Vector3_Dot_def Vector3_add_def algebra_simps)

lemma Dot_subtract_scale_self:
  "Vector3_Dot (Vector3_subtract w (Vector3_scale v d)) (Vector3_subtract w (Vector3_scale v d)) =
     Vector3_Dot w w - 2 * d * Vector3_Dot v w + d * d * Vector3_Dot v v"
  by (simp add: Vector3_Dot_def Vector3_subtract_def Vector3_scale_def algebra_simps)

lemma Dot_subtract_scale_left:
  "Vector3_Dot v (Vector3_subtract w (Vector3_scale v d)) = Vector3_Dot v w - d * Vector3_Dot v v"
  by (simp add: Vector3_Dot_def Vector3_subtract_def Vector3_scale_def algebra_simps)

lemma Dot_Lerp_self:
  "Vector3_Dot (Vector3_Lerp v w t) (Vector3_Lerp v w t) =
     (1 - t) * (1 - t) * Vector3_Dot v v + 2 * t * (1 - t) * Vector3_Dot v w +
     t * t * Vector3_Dot w w"
  by (simp add: Vector3_Dot_def Vector3_Lerp_def algebra_simps)

lemma scale_1: "Vector3_scale u 1 = u"
  by (simp add: Vector3_scale_def)

text \<open>\<open>normalize\<close> of a vector that is not zero is a scaling by the inverse length.\<close>

lemma normalize_as_scale:
  assumes "Vector3_Dot u u \<noteq> 0"
  shows "Vector3_normalize u = Vector3_scale u (1 / Vector3_length u)"
proof -
  have "Vector3_length u \<noteq> 0"
    using assms by (simp add: length_0_iff)
  then show ?thesis
    by (cases "Vector3_length u = 1")
       (simp_all add: Vector3_normalize_def Vector3_normalizeFromLength_def scale_1)
qed

lemma Dot_normalize:
  assumes "Vector3_Dot u u \<noteq> 0"
  shows "Vector3_Dot (Vector3_normalize u) (Vector3_normalize u) = 1"
proof -
  have pos: "0 < Vector3_Dot u u"
    using assms Dot_self_nonneg [of u] by simp
  have "Vector3_length u * Vector3_length u = Vector3_Dot u u"
    using pos by (simp add: length_eq_sqrt_Dot)
  then show ?thesis
    using pos by (simp add: normalize_as_scale [OF assms] Dot_scale_scale)
qed

text \<open>The dot product of two unit vectors lies between \<open>-1\<close> and 1.\<close>

lemma Dot_unit_bounds:
  assumes "Vector3_Dot v v = 1" and "Vector3_Dot w w = 1"
  shows "- 1 \<le> Vector3_Dot v w" and "Vector3_Dot v w \<le> 1"
proof -
  have "0 \<le> Vector3_Dot (Vector3_add v w) (Vector3_add v w)" by (rule Dot_self_nonneg)
  then show "- 1 \<le> Vector3_Dot v w"
    using assms by (simp add: Dot_add_add)
  have "0 \<le> Vector3_Dot (Vector3_subtract w (Vector3_scale v 1))
      (Vector3_subtract w (Vector3_scale v 1))"
    by (rule Dot_self_nonneg)
  then show "Vector3_Dot v w \<le> 1"
    using assms by (simp add: Dot_subtract_scale_self)
qed

text \<open>The branch \<open>dot > 0.9995\<close>: the interpolated vector is not zero, so its
  normalization has length 1.\<close>

lemma slerp_near_parallel_unit:
  assumes v: "Vector3_Dot v v = 1" and w: "Vector3_Dot w w = 1"
    and d: "0.9995 < Vector3_Dot v w"
  shows "Vector3_Dot (slerp v w t) (slerp v w t) = 1"
proof -
  let ?d = "Vector3_Dot v w"
  have d1: "?d \<le> 1" using v w by (rule Dot_unit_bounds(2))
  have quarter: "t * (1 - t) \<le> 1 / 4"
  proof -
    have "0 \<le> (t - 1 / 2) * (t - 1 / 2)" by simp
    then show ?thesis by (simp add: algebra_simps)
  qed
  have small: "2 * (t * (1 - t)) * (1 - ?d) \<le> 1 / 2"
  proof (cases "0 \<le> t * (1 - t)")
    case True
    have "(t * (1 - t)) * (1 - ?d) \<le> (1 / 4) * 1"
      using quarter True d d1 by (intro mult_mono) simp_all
    then show ?thesis by simp
  next
    case False
    then have a: "t * (1 - t) \<le> 0" by linarith
    have b: "0 \<le> 1 - ?d" using d1 by simp
    from a b have "(t * (1 - t)) * (1 - ?d) \<le> 0"
      by (rule mult_nonpos_nonneg)
    then show ?thesis by simp
  qed
  have "Vector3_Dot (Vector3_Lerp v w t) (Vector3_Lerp v w t) = 1 - 2 * (t * (1 - t)) * (1 - ?d)"
    by (simp add: Dot_Lerp_self v w algebra_simps)
  with small have "Vector3_Dot (Vector3_Lerp v w t) (Vector3_Lerp v w t) \<noteq> 0"
    by simp
  then show ?thesis
    using d by (simp add: slerp_def Let_def Dot_normalize)
qed

text \<open>The general branch: \<open>relative\<close> is a unit vector orthogonal to \<open>v1\<close>, unless
  \<open>v2 = - v1\<close>.\<close>

lemma slerp_general_unit:
  assumes v: "Vector3_Dot v v = 1" and w: "Vector3_Dot w w = 1"
    and d: "\<not> 0.9995 < Vector3_Dot v w" and anti: "Vector3_Dot v w \<noteq> - 1"
  shows "Vector3_Dot (slerp v w t) (slerp v w t) = 1"
proof -
  let ?d = "Vector3_Dot v w"
  let ?u = "Vector3_subtract w (Vector3_scale v ?d)"
  let ?rel = "Vector3_normalize ?u"
  let ?th = "arccos ?d * t"
  have lo: "- 1 < ?d" using Dot_unit_bounds(1) [OF v w] anti by simp
  have hi: "?d < 1" using d by simp
  have clamp: "min 1 ?d = ?d" "max (- 1) ?d = ?d" using lo hi by simp_all
  have uu: "Vector3_Dot ?u ?u = 1 - ?d * ?d"
    by (simp add: Dot_subtract_scale_self v w algebra_simps)
  have "0 < (1 - ?d) * (1 + ?d)"
    using lo hi by (intro mult_pos_pos) simp_all
  then have "?d * ?d < 1" by (simp add: algebra_simps)
  then have u0: "Vector3_Dot ?u ?u \<noteq> 0" using uu by simp
  have rel1: "Vector3_Dot ?rel ?rel = 1" using u0 by (rule Dot_normalize)
  have vrel: "Vector3_Dot v ?rel = 0"
    by (simp add: normalize_as_scale [OF u0] Dot_scale_right Dot_subtract_scale_left v)
  have "slerp v w t = Vector3_add (Vector3_scale v (cos ?th)) (Vector3_scale ?rel (sin ?th))"
    using d by (simp add: slerp_def Let_def clamp)
  then have "Vector3_Dot (slerp v w t) (slerp v w t) =
      cos ?th * cos ?th * 1 + 2 * (cos ?th * sin ?th * 0) + sin ?th * sin ?th * 1"
    by (simp only: Dot_add_add Dot_scale_scale v rel1 vrel)
  also have "\<dots> = (cos ?th)\<^sup>2 + (sin ?th)\<^sup>2" by (simp add: power2_eq_square)
  finally show ?thesis by simp
qed

text \<open>
  C5 (the code at the failing input): \<open>(1, 0, 0)\<close> and \<open>(-1, 0, 0)\<close> are unit vectors,
  and at \<open>t = 1/2\<close> their \<open>slerp\<close> is the zero vector, not a vector of length 1 within
  \<open>1e-8\<close>: \<open>relative\<close> is the normalization of the zero vector, which is the zero
  vector, and \<open>cos (pi / 2) = 0\<close>. This is the input of the repository's test
  \<open>should handle opposite vectors\<close>, which expects the length 1.
\<close>

theorem slerp_antipodal_collapses:
  "Vector3_length \<lparr>vx = 1, vy = 0, vz = 0\<rparr> = 1 \<and>
   Vector3_length \<lparr>vx = - 1, vy = 0, vz = 0\<rparr> = 1 \<and>
   Vector3_length (slerp \<lparr>vx = 1, vy = 0, vz = 0\<rparr> \<lparr>vx = - 1, vy = 0, vz = 0\<rparr> (1 / 2)) = 0 \<and>
   \<not> \<bar>Vector3_length (slerp \<lparr>vx = 1, vy = 0, vz = 0\<rparr> \<lparr>vx = - 1, vy = 0, vz = 0\<rparr> (1 / 2)) - 1\<bar>
       \<le> 1 / 10 ^ 8"
  by (simp add: slerp_def Let_def Vector3_Dot_def Vector3_length_def Vector3_subtract_def
      Vector3_scale_def Vector3_add_def Vector3_normalize_def Vector3_normalizeFromLength_def)

text \<open>
  Everywhere else the length is right: for unit vectors \<open>v\<close>, \<open>w\<close> that are not exactly
  antipodal (\<open>Dot(v, w)\<close> is not \<open>-1\<close>) and every \<open>t\<close>, \<open>slerp(v, w, t)\<close> has length 1, in
  the branch \<open>dot > 0.9995\<close> and in the general branch (exactly, in real arithmetic).
\<close>

lemma slerp_unit_length:
  assumes "Vector3_length v = 1" and "Vector3_length w = 1" and "Vector3_Dot v w \<noteq> - 1"
  shows "Vector3_length (slerp v w t) = 1"
  using assms slerp_near_parallel_unit [of v w t] slerp_general_unit [of v w t]
  by (cases "0.9995 < Vector3_Dot v w") (simp_all add: length_1_iff)

lemma slerp_unit_length_example:
  "Vector3_length (slerp \<lparr>vx = 1, vy = 0, vz = 0\<rparr> \<lparr>vx = 0, vy = 0, vz = 1\<rparr> (1 / 2)) = 1"
  by (rule slerp_unit_length) (simp_all add: Vector3_length_def Vector3_Dot_def)

end
